theory Spec2Isabelle
  imports Complex_Main
begin

section \<open>Data model\<close>

text \<open>
  A row of a search response, \<^verbatim>\<open>{ text, score, metadata }\<close>, with the
  \<^verbatim>\<open>database_name\<close> property that the fan-out adds by
  \<^verbatim>\<open>{ ...r, database_name: db.name }\<close>. Scores are finite numbers; every finite
  double is a rational and the sign of \<^verbatim>\<open>b.score - a.score\<close> on doubles is the sign
  of the exact difference, so scores are modelled as rationals.
\<close>

record search_result =
  result_text :: string
  score :: rat
  metadata :: "(string \<times> string) list"
  database_name :: "string option"

text \<open>An entry of \<^verbatim>\<open>GET /databases\<close>.\<close>

record database =
  db_name :: string
  document_count :: nat

text \<open>The JSON body of \<^verbatim>\<open>POST /search\<close>.\<close>

record search_request =
  req_database_name :: string
  req_query :: string
  req_limit :: int
  req_min_score :: rat

text \<open>
  What awaiting a \<^verbatim>\<open>fetch\<close> and its \<^verbatim>\<open>json()\<close> can give: a rejected promise
  (\<open>Threw\<close>), a response whose \<^verbatim>\<open>ok\<close> is false (\<open>NotOk\<close>), or a parsed body.
\<close>

datatype 'a fetch_response = Threw | NotOk | Ok 'a

section \<open>JavaScript primitives\<close>

text \<open>\<^verbatim>\<open>Math.ceil(a / b)\<close> on integers, for a positive divisor.\<close>

definition ceil_div :: "int \<Rightarrow> int \<Rightarrow> int" where
  "ceil_div a b = - ((- a) div b)"

text \<open>\<^verbatim>\<open>xs.slice(0, e)\<close>: a negative end counts from the end of the array.\<close>

definition js_slice0 :: "'a list \<Rightarrow> int \<Rightarrow> 'a list" where
  "js_slice0 xs e = (if e < 0 then take (nat (int (length xs) + e)) xs else take (nat e) xs)"

text \<open>
  \<^verbatim>\<open>Array.prototype.sort(cmp)\<close> is a stable sort; for a consistent comparator its
  result is the one computed by stable insertion.
\<close>

fun js_insert :: "('a \<Rightarrow> 'a \<Rightarrow> rat) \<Rightarrow> 'a \<Rightarrow> 'a list \<Rightarrow> 'a list" where
  "js_insert cmp x [] = [x]"
| "js_insert cmp x (y # ys) = (if cmp x y \<le> 0 then x # y # ys else y # js_insert cmp x ys)"

fun js_sort :: "('a \<Rightarrow> 'a \<Rightarrow> rat) \<Rightarrow> 'a list \<Rightarrow> 'a list" where
  "js_sort cmp [] = []"
| "js_sort cmp (x # xs) = js_insert cmp x (js_sort cmp xs)"

text \<open>The comparator \<^verbatim>\<open>(a, b) => b.score - a.score\<close>.\<close>

definition by_score_desc :: "search_result \<Rightarrow> search_result \<Rightarrow> rat" where
  "by_score_desc a b = score b - score a"

text \<open>
  \<^verbatim>\<open>String.prototype.trim\<close> on strings of bytes: the six ASCII white space characters
  are stripped from both ends. The white space characters beyond ASCII that the
  JavaScript function also strips (U+00A0, U+FEFF, U+2028 and the like) are several
  bytes each here and are left in place; the statements below use of the function only
  that it is the same at every call and maps the empty string to itself.
\<close>

definition js_whitespace :: "char \<Rightarrow> bool" where
  "js_whitespace c = (c \<in> set [CHR '' '', CHR 0x09, CHR 0x0A, CHR 0x0B, CHR 0x0C, CHR 0x0D])"

definition js_trim :: "string \<Rightarrow> string" where
  "js_trim s = rev (dropWhile js_whitespace (rev (dropWhile js_whitespace s)))"

text \<open>
  \<^verbatim>\<open>parseInt(v, 10) || 10\<close> and \<^verbatim>\<open>parseFloat(v) || 0.3\<close>: \<open>None\<close> is \<^verbatim>\<open>NaN\<close>,
  and zero is falsy as well.
\<close>

definition limit_or_default :: "int option \<Rightarrow> int" where
  "limit_or_default v = (case v of None \<Rightarrow> 10 | Some n \<Rightarrow> if n = 0 then 10 else n)"

definition min_score_or_default :: "rat option \<Rightarrow> rat" where
  "min_score_or_default v = (case v of None \<Rightarrow> 3 / 10 | Some x \<Rightarrow> if x = 0 then 3 / 10 else x)"

section \<open>Search in the side panel: \<^verbatim>\<open>performPanelSearch\<close>\<close>

text \<open>
  What the panel shows when the search is over: one of the two prompts (no request is
  sent), the summary and the list given to \<^verbatim>\<open>renderPanelSearchResults\<close> (the summary
  text is built from the length of the list, the minimum score and the all-databases
  flag), or the failure message of the outer \<^verbatim>\<open>catch\<close>.
\<close>

datatype search_outcome =
    EnterQuery
  | SelectDatabase
  | Found "search_result list" bool
  | SearchFailed

text \<open>The per-database quota \<^verbatim>\<open>perDb\<close>.\<close>

definition perDb :: "int \<Rightarrow> database list \<Rightarrow> int" where
  "perDb limit dbs = max 5 (ceil_div limit (max 1 (int (length dbs))) + 1)"

text \<open>The request that the closure of \<^verbatim>\<open>dbs.map\<close> sends for one database.\<close>

definition panel_request :: "string \<Rightarrow> int \<Rightarrow> rat \<Rightarrow> database \<Rightarrow> search_request" where
  "panel_request query per minScore db =
     \<lparr>req_database_name = db_name db, req_query = query, req_limit = per, req_min_score = minScore\<rparr>"

text \<open>
  The closure itself: a rejected fetch and a response that is not ok both give the empty
  array; the rows of a good response are tagged with the database's name.
\<close>

definition tag_with :: "database \<Rightarrow> search_result \<Rightarrow> search_result" where
  "tag_with db r = r\<lparr>database_name := Some (db_name db)\<rparr>"

definition panel_search_one ::
  "(search_request \<Rightarrow> search_result list fetch_response) \<Rightarrow> string \<Rightarrow> int \<Rightarrow> rat \<Rightarrow> database
     \<Rightarrow> search_result list" where
  "panel_search_one backend query per minScore db =
     (case backend (panel_request query per minScore db) of
        Ok res \<Rightarrow> map (tag_with db) res
      | NotOk \<Rightarrow> []
      | Threw \<Rightarrow> [])"

text \<open>
  \<^verbatim>\<open>performPanelSearch\<close>, from the values read from the form (the query input, the
  database select, the parsed limit and minimum score) and the backend: the answer to
  \<^verbatim>\<open>GET /databases\<close> and the answer to each \<^verbatim>\<open>POST /search\<close>. It returns the
  search requests sent, in order, and the outcome shown.
\<close>

definition performPanelSearch ::
  "database list fetch_response \<Rightarrow> (search_request \<Rightarrow> search_result list fetch_response)
     \<Rightarrow> string \<Rightarrow> string \<Rightarrow> int option \<Rightarrow> rat option
     \<Rightarrow> search_request list \<times> search_outcome" where
  "performPanelSearch dbResp backend queryInput selectedDb limitInput minScoreInput =
     (let query = js_trim queryInput in
      if query = [] then ([], EnterQuery)
      else if selectedDb = [] then ([], SelectDatabase)
      else
        let limit = limit_or_default limitInput;
            minScore = min_score_or_default minScoreInput
        in
        if selectedDb = ''__ALL__'' then
          (case dbResp of
             Threw \<Rightarrow> ([], SearchFailed)
           | _ \<Rightarrow>
             let dbs = (case dbResp of Ok ds \<Rightarrow> ds | _ \<Rightarrow> []);
                 per = perDb limit dbs;
                 resultsByDb = map (panel_search_one backend query per minScore) dbs;
                 allResults = concat resultsByDb
             in (map (panel_request query per minScore) dbs,
                 Found (js_slice0 (js_sort by_score_desc allResults) limit) True))
        else
          (let req = \<lparr>req_database_name = selectedDb, req_query = query, req_limit = limit,
                       req_min_score = minScore\<rparr>
           in case backend req of
                Threw \<Rightarrow> ([req], SearchFailed)
              | NotOk \<Rightarrow> ([req], Found (js_slice0 (js_sort by_score_desc []) limit) False)
              | Ok res \<Rightarrow> ([req], Found (js_slice0 (js_sort by_score_desc res) limit) False)))"

section \<open>Search in the popup: \<^verbatim>\<open>performSearch\<close>\<close>

text \<open>
  The popup searches the cached list \<^verbatim>\<open>databases\<close>, asks each database for
  \<^verbatim>\<open>Math.ceil(limit / databases.length) + 2\<close> rows with the fixed minimum score 0.3, and
  in a single database search shows the rows of the response as they are.
\<close>

datatype popup_outcome =
    EnterSearchQuery
  | SelectDatabaseOrAll
  | RenderSearchResults "search_result list" bool
  | PopupSearchFailed

definition popup_request :: "string \<Rightarrow> int \<Rightarrow> database list \<Rightarrow> database \<Rightarrow> search_request" where
  "popup_request query limit databases db =
     \<lparr>req_database_name = db_name db, req_query = query,
      req_limit = ceil_div limit (int (length databases)) + 2, req_min_score = 3 / 10\<rparr>"

definition popup_search_one ::
  "(search_request \<Rightarrow> search_result list fetch_response) \<Rightarrow> string \<Rightarrow> int \<Rightarrow> database list
     \<Rightarrow> database \<Rightarrow> search_result list" where
  "popup_search_one backend query limit databases db =
     (case backend (popup_request query limit databases db) of
        Ok results \<Rightarrow> map (tag_with db) results
      | NotOk \<Rightarrow> []
      | Threw \<Rightarrow> [])"

definition performSearch ::
  "database list \<Rightarrow> (search_request \<Rightarrow> search_result list fetch_response)
     \<Rightarrow> string \<Rightarrow> bool \<Rightarrow> string \<Rightarrow> int option
     \<Rightarrow> search_request list \<times> popup_outcome" where
  "performSearch databases backend queryInput searchAll dbName limitInput =
     (let query = js_trim queryInput;
          limit = limit_or_default limitInput
      in
      if query = [] then ([], EnterSearchQuery)
      else if \<not> searchAll \<and> dbName = [] then ([], SelectDatabaseOrAll)
      else if searchAll then
        (let dbResults = map (popup_search_one backend query limit databases) databases;
             allResults = js_slice0 (js_sort by_score_desc (concat dbResults)) limit
         in (map (popup_request query limit databases) databases,
             RenderSearchResults allResults searchAll))
      else
        (let req = \<lparr>req_database_name = dbName, req_query = query, req_limit = limit,
                     req_min_score = 3 / 10\<rparr>
         in case backend req of
              Threw \<Rightarrow> ([req], PopupSearchFailed)
            | NotOk \<Rightarrow> ([req], PopupSearchFailed)
            | Ok allResults \<Rightarrow> ([req], RenderSearchResults allResults searchAll)))"

section \<open>The merge in the words of the specification\<close>

text \<open>
  The answer of a source is the response to the request sent for it. A source has failed
  when that response is a transport error or a status that is not a success.
\<close>

definition source_failed :: "(database \<Rightarrow> 'a fetch_response) \<Rightarrow> database \<Rightarrow> bool" where
  "source_failed answer db = (case answer db of Ok res \<Rightarrow> False | _ \<Rightarrow> True)"

text \<open>
  The surviving partial results: for each source whose request succeeded, in the order of
  the source list, its rows tagged with the source.
\<close>

definition surviving_partials ::
  "(database \<Rightarrow> search_result list fetch_response) \<Rightarrow> database list \<Rightarrow> search_result list list" where
  "surviving_partials answer dbs =
     List.map_filter (\<lambda>db. case answer db of Ok res \<Rightarrow> Some (map (tag_with db) res) | _ \<Rightarrow> None) dbs"

text \<open>
  Concatenate the surviving partial results, sort stably by descending score
  (\<^const>\<open>sort_key\<close> is the stable sort of the library, here on the negated score),
  truncate to the limit.
\<close>

definition spec_merge ::
  "(database \<Rightarrow> search_result list fetch_response) \<Rightarrow> database list \<Rightarrow> int \<Rightarrow> search_result list" where
  "spec_merge answer dbs limit =
     take (nat limit) (sort_key (\<lambda>r. - score r) (concat (surviving_partials answer dbs)))"

text \<open>The number of requests of a list that fail at a backend.\<close>

definition failed_count ::
  "(search_request \<Rightarrow> search_result list fetch_response) \<Rightarrow> search_request list \<Rightarrow> nat" where
  "failed_count backend reqs =
     length (filter (\<lambda>req. case backend req of Ok res \<Rightarrow> False | _ \<Rightarrow> True) reqs)"

text \<open>
  A backend in which every failure is replaced by a success with no rows.
\<close>

definition degrade ::
  "(search_request \<Rightarrow> search_result list fetch_response)
     \<Rightarrow> search_request \<Rightarrow> search_result list fetch_response" where
  "degrade backend req = (case backend req of Ok res \<Rightarrow> Ok res | NotOk \<Rightarrow> Ok [] | Threw \<Rightarrow> Ok [])"

section \<open>The scenario of three sources\<close>

text \<open>
  Source A answers with three hits, source B fails, source C answers with five hits; two
  hits of A and C have the same score.
\<close>

definition row :: "string \<Rightarrow> rat \<Rightarrow> search_result" where
  "row t s = \<lparr>result_text = t, score = s, metadata = [], database_name = None\<rparr>"

definition sourceA :: database where
  "sourceA = \<lparr>db_name = ''A'', document_count = 3\<rparr>"

definition sourceB :: database where
  "sourceB = \<lparr>db_name = ''B'', document_count = 4\<rparr>"

definition sourceC :: database where
  "sourceC = \<lparr>db_name = ''C'', document_count = 5\<rparr>"

definition hitsA :: "search_result list" where
  "hitsA = [row ''a1'' (9/10), row ''a2'' (7/10), row ''a3'' (5/10)]"

definition hitsC :: "search_result list" where
  "hitsC = [row ''c1'' (95/100), row ''c2'' (7/10), row ''c3'' (6/10), row ''c4'' (4/10),
            row ''c5'' (35/100)]"

definition scenario_backend :: "search_request \<Rightarrow> search_result list fetch_response" where
  "scenario_backend req =
     (if req_database_name req = ''A'' then Ok hitsA
      else if req_database_name req = ''C'' then Ok hitsC
      else NotOk)"

section \<open>The selection set and the composed context\<close>

text \<open>
  \<^verbatim>\<open>searchSelectedResults\<close> and \<^verbatim>\<open>selectedResults\<close> are JavaScript \<^verbatim>\<open>Set\<close>s of
  result indices. A \<^verbatim>\<open>Set\<close> keeps its elements in insertion order and \<^verbatim>\<open>forEach\<close>
  visits them in that order, so a set is modelled as a list without duplicates:
  \<^verbatim>\<open>add\<close> appends a new element and leaves a present one where it is.
\<close>

definition set_add :: "nat \<Rightarrow> nat list \<Rightarrow> nat list" where
  "set_add i s = (if i \<in> set s then s else s @ [i])"

definition set_delete :: "nat \<Rightarrow> nat list \<Rightarrow> nat list" where
  "set_delete i s = filter (\<lambda>j. j \<noteq> i) s"

text \<open>The \<^verbatim>\<open>change\<close> handler of a result's checkbox in the panel.\<close>

definition checkbox_change :: "nat \<Rightarrow> bool \<Rightarrow> nat list \<Rightarrow> nat list" where
  "checkbox_change i checked s = (if checked then set_add i s else set_delete i s)"

text \<open>
  The Select All handler: the set is cleared, then every rendered checkbox, in document
  order, adds its index; \<open>n\<close> is the number of rendered results.
\<close>

definition select_all :: "nat \<Rightarrow> nat list" where
  "select_all n = fold set_add [0..<n] []"

text \<open>
  What the composer reads from a rendered result item: its \<^verbatim>\<open>data-full-text\<close> attribute
  and the text of its score element (\<^verbatim>\<open>Match: 87.5%\<close>).
\<close>

record result_node =
  data_full_text :: string
  score_label :: string

definition nl :: string where
  "nl = [CHR 0x0A]"

definition dq :: string where
  "dq = [CHR 0x22]"

text \<open>The decimal digits of a number, as a template literal prints it.\<close>

function string_of_nat :: "nat \<Rightarrow> string" where
  "string_of_nat n =
     (if n < 10 then [''0123456789'' ! n]
      else string_of_nat (n div 10) @ [''0123456789'' ! (n mod 10)])"
  by pat_completeness auto
termination
  by (relation "measure id") auto

text \<open>
  The body of the \<^verbatim>\<open>forEach\<close> of both composers: an index with no rendered item is
  skipped, otherwise the entry is appended and the running number goes up.
\<close>

fun context_loop ::
  "(nat \<Rightarrow> result_node \<Rightarrow> string) \<Rightarrow> result_node list \<Rightarrow> nat list \<Rightarrow> nat \<times> string \<Rightarrow> nat \<times> string" where
  "context_loop entry nodes [] (idx, ctx) = (idx, ctx)"
| "context_loop entry nodes (i # sel) (idx, ctx) =
     (if i < length nodes
      then context_loop entry nodes sel (idx + 1, ctx @ entry idx (nodes ! i))
      else context_loop entry nodes sel (idx, ctx))"

text \<open>The panel's composer, the \<^verbatim>\<open>onclick\<close> of \<^verbatim>\<open>#contextdb-create-context\<close>.\<close>

definition panel_entry :: "nat \<Rightarrow> result_node \<Rightarrow> string" where
  "panel_entry idx item =
     ''## Context '' @ string_of_nat idx @ nl @ ''**Relevance**: '' @ score_label item @ nl @ nl
       @ data_full_text item @ nl @ nl @ ''---'' @ nl @ nl"

definition panel_header :: string where
  "panel_header = ''# Context Information'' @ nl @ nl"

definition create_context :: "result_node list \<Rightarrow> nat list \<Rightarrow> string" where
  "create_context nodes searchSelectedResults =
     snd (context_loop panel_entry nodes searchSelectedResults (1, panel_header))"

text \<open>
  The popup's composer \<^verbatim>\<open>createContextText\<close>; \<open>decodeHtml\<close> is the browser's decoding
  of character entities, \<open>None\<close> is the refusal of an empty selection.
\<close>

definition popup_entry :: "(string \<Rightarrow> string) \<Rightarrow> nat \<Rightarrow> result_node \<Rightarrow> string" where
  "popup_entry decodeHtml contextNumber resultItem =
     ''## Context '' @ string_of_nat contextNumber @ nl
       @ ''**Relevance**: '' @ score_label resultItem @ nl @ nl
       @ decodeHtml (data_full_text resultItem) @ nl @ nl
       @ ''---'' @ nl @ nl"

definition popup_header :: string where
  "popup_header = ''# Context Information'' @ nl @ nl
     @ ''The following information has been retrieved from your knowledge base:'' @ nl @ nl"

definition popup_footer :: string where
  "popup_footer = ''Please use this context information to answer questions or provide insights.'' @ nl"

definition createContextText :: "(string \<Rightarrow> string) \<Rightarrow> result_node list \<Rightarrow> nat list \<Rightarrow> string option" where
  "createContextText decodeHtml nodes selectedResults =
     (if selectedResults = [] then None
      else Some (snd (context_loop (popup_entry decodeHtml) nodes selectedResults (1, popup_header))
                 @ popup_footer))"

text \<open>
  The entries a composer would write for the indices \<open>sel\<close> taken in the order of the
  list: the indices with a rendered item, numbered from 1.
\<close>

definition visited :: "result_node list \<Rightarrow> nat list \<Rightarrow> nat list" where
  "visited nodes sel = filter (\<lambda>i. i < length nodes) sel"

definition entries_from ::
  "(nat \<Rightarrow> result_node \<Rightarrow> string) \<Rightarrow> nat \<Rightarrow> result_node list \<Rightarrow> nat list \<Rightarrow> string" where
  "entries_from entry idx nodes sel =
     concat (map (\<lambda>(k, i). entry (idx + k) (nodes ! i))
       (zip [0..<length (visited nodes sel)] (visited nodes sel)))"

text \<open>Three rendered results, for the examples.\<close>

definition three_nodes :: "result_node list" where
  "three_nodes =
     [\<lparr>data_full_text = ''zero'', score_label = ''Match: 90.0%''\<rparr>,
      \<lparr>data_full_text = ''one'', score_label = ''Match: 80.0%''\<rparr>,
      \<lparr>data_full_text = ''two'', score_label = ''Match: 70.0%''\<rparr>]"

section \<open>The popup: cached databases, default selection, results and their selection\<close>

text \<open>
  The popup's module variables (\<^verbatim>\<open>databases\<close>, \<^verbatim>\<open>selectedDatabase\<close>,
  \<^verbatim>\<open>selectedResults\<close>), the \<^verbatim>\<open>selectedDatabase\<close> key of \<^verbatim>\<open>chrome.storage.sync\<close>, the
  value of the name input, the result items now rendered in \<^verbatim>\<open>#searchResults\<close> (none
  while it shows a message), and a log of what has been sent and shown: the HTTP calls,
  the messages to the side panel and the notifications.
\<close>

datatype http_call = GET string | POST string string | DELETE string

record popup =
  databases :: "database list"
  selectedDatabase :: "string option"
  stored_selectedDatabase :: "string option"
  newDbNameInput_value :: string
  searchResults_items :: "search_result list"
  selectedResults :: "nat list"
  http_calls :: "http_call list"
  tab_messages :: "string list"
  popup_notifications :: "(string \<times> string) list"

definition showNotification :: "string \<Rightarrow> string \<Rightarrow> popup \<Rightarrow> popup" where
  "showNotification message type p = p\<lparr>popup_notifications := popup_notifications p @ [(message, type)]\<rparr>"

text \<open>
  \<^verbatim>\<open>loadDatabases\<close>: the cache is replaced by a good answer and kept otherwise.
\<close>

definition loadDatabases :: "database list fetch_response \<Rightarrow> popup \<Rightarrow> popup" where
  "loadDatabases response p =
     (let p1 = p\<lparr>http_calls := http_calls p @ [GET ''/databases'']\<rparr>
      in case response of Ok dbs \<Rightarrow> p1\<lparr>databases := dbs\<rparr> | NotOk \<Rightarrow> p1 | Threw \<Rightarrow> p1)"

text \<open>
  \<^verbatim>\<open>createDatabase\<close> of the popup, from the answer to \<^verbatim>\<open>POST /databases\<close> and the
  answer to the \<^verbatim>\<open>GET /databases\<close> of the reload. With \<open>notify_panel\<close> it is the
  variant that also sends \<^verbatim>\<open>refreshDatabases\<close> to the side panel.
\<close>

definition createDatabase ::
  "bool \<Rightarrow> unit fetch_response \<Rightarrow> database list fetch_response \<Rightarrow> popup \<Rightarrow> popup" where
  "createDatabase notify_panel response reload p =
     (let name = js_trim (newDbNameInput_value p) in
      if name = [] then showNotification ''Please enter a database name'' ''error'' p
      else if \<exists>db \<in> set (databases p). db_name db = name
        then showNotification ''Database already exists'' ''error'' p
      else
        let p1 = p\<lparr>http_calls := http_calls p @ [POST ''/databases'' name]\<rparr>
        in case response of
             Ok u \<Rightarrow>
               (let p2 = p1\<lparr>newDbNameInput_value := []\<rparr>;
                    p3 = showNotification ''Database created successfully'' ''success'' p2;
                    p4 = loadDatabases reload p3
                in if notify_panel
                   then p4\<lparr>tab_messages := tab_messages p4 @ [''refreshDatabases'']\<rparr>
                   else p4)
           | NotOk \<Rightarrow> showNotification ''Error creating database'' ''error'' p1
           | Threw \<Rightarrow> showNotification ''Error creating database'' ''error'' p1)"

text \<open>
  \<^verbatim>\<open>loadSettings\<close> of the popup, for the default selection:
  \<^verbatim>\<open>selectedDatabase = result.selectedDatabase || null\<close>, where a missing key and the
  empty string both give null.
\<close>

definition loadSettings :: "popup \<Rightarrow> popup" where
  "loadSettings p =
     p\<lparr>selectedDatabase :=
         (case stored_selectedDatabase p of
            None \<Rightarrow> None
          | Some s \<Rightarrow> if s = [] then None else Some s)\<rparr>"

text \<open>\<^verbatim>\<open>selectDatabase\<close>: the default database, in the variable and in the store.\<close>

definition selectDatabase :: "string \<Rightarrow> popup \<Rightarrow> popup" where
  "selectDatabase dbName p =
     showNotification (''Selected database: '' @ dbName) ''success''
       (p\<lparr>selectedDatabase := Some dbName, stored_selectedDatabase := Some dbName\<rparr>)"

text \<open>
  \<^verbatim>\<open>deleteDatabase\<close> of the popup that keeps a default selection; \<open>confirmed\<close> is the
  answer to the \<^verbatim>\<open>confirm\<close> dialog. Writes to the store are taken to succeed.
\<close>

definition deleteDatabase ::
  "string \<Rightarrow> bool \<Rightarrow> unit fetch_response \<Rightarrow> database list fetch_response \<Rightarrow> popup \<Rightarrow> popup" where
  "deleteDatabase dbName confirmed response reload p =
     (if \<not> confirmed then p
      else
        let p1 = p\<lparr>http_calls := http_calls p @ [DELETE (''/databases/'' @ dbName)]\<rparr>
        in case response of
             Ok u \<Rightarrow>
               (let p2 = (if selectedDatabase p1 = Some dbName
                          then p1\<lparr>selectedDatabase := None, stored_selectedDatabase := None\<rparr>
                          else p1);
                    p3 = showNotification ''Database deleted successfully'' ''success'' p2
                in loadDatabases reload p3)
           | NotOk \<Rightarrow> showNotification ''Error deleting database'' ''error'' p1
           | Threw \<Rightarrow> showNotification ''Error deleting database'' ''error'' p1)"

text \<open>
  \<^verbatim>\<open>renderSearchResults\<close>: an empty list shows the message and returns; otherwise the
  selection is cleared and the items are rendered.
\<close>

definition renderSearchResults :: "search_result list \<Rightarrow> bool \<Rightarrow> popup \<Rightarrow> popup" where
  "renderSearchResults results searchedAll p =
     (if results = [] then p\<lparr>searchResults_items := []\<rparr>
      else p\<lparr>selectedResults := [], searchResults_items := results\<rparr>)"

text \<open>\<^verbatim>\<open>toggleResultSelection\<close>, for the checkbox of a rendered item and its new state.\<close>

definition toggleResultSelection :: "nat \<Rightarrow> bool \<Rightarrow> popup \<Rightarrow> popup" where
  "toggleResultSelection index checked p =
     (if index < length (searchResults_items p)
      then (if checked then p\<lparr>selectedResults := set_add index (selectedResults p)\<rparr>
            else p\<lparr>selectedResults := set_delete index (selectedResults p)\<rparr>)
      else p)"

text \<open>
  A whole search of the popup on its state: \<^verbatim>\<open>performSearch\<close> on the cached databases,
  then what its outcome does to the page. A search that passes validation first replaces
  the results by the \<^verbatim>\<open>Searching...\<close> message.
\<close>

definition popup_search ::
  "(search_request \<Rightarrow> search_result list fetch_response) \<Rightarrow> string \<Rightarrow> bool \<Rightarrow> string \<Rightarrow> int option
     \<Rightarrow> popup \<Rightarrow> popup" where
  "popup_search backend queryInput searchAll dbName limitInput p =
     (case snd (performSearch (databases p) backend queryInput searchAll dbName limitInput) of
        EnterSearchQuery \<Rightarrow> showNotification ''Please enter a search query'' ''error'' p
      | SelectDatabaseOrAll \<Rightarrow>
          showNotification (''Please select a database to search or enable '' @ dq @ ''Search all databases'' @ dq) ''error'' p
      | RenderSearchResults allResults searchedAll \<Rightarrow>
          renderSearchResults allResults searchedAll (p\<lparr>searchResults_items := []\<rparr>)
      | PopupSearchFailed \<Rightarrow>
          showNotification ''Search failed'' ''error'' (p\<lparr>searchResults_items := []\<rparr>))"

definition popup_init :: popup where
  "popup_init =
     \<lparr>databases = [], selectedDatabase = None, stored_selectedDatabase = None,
      newDbNameInput_value = [], searchResults_items = [], selectedResults = [],
      http_calls = [], tab_messages = [], popup_notifications = []\<rparr>"

section \<open>The side panel\<close>

text \<open>
  The content script's variables (\<^verbatim>\<open>sidePanel\<close> is whether the element exists) and
  the parts of the panel that saving, closing and searching read and write: the open
  class, the opacity of the body, the save button, the database select, the loading
  element (absent from the current panel's markup, present in the earlier one), the
  results area (its rendered result items, or the message it shows in their place) and
  the selection. Timers set by \<^verbatim>\<open>setTimeout\<close> are kept as
  pending work; notifications are logged in the order they are requested.
\<close>

datatype timer = ClearSelectedText | LoadDatabasesForPanel

record panel =
  enableContextMenu :: bool
  sidePanel :: bool
  isPanelOpen :: bool
  panel_open_class :: bool
  selectedText :: string
  dbSelect_value :: string
  newDbInput_value :: string
  tagsInput_value :: string
  body_opacity :: string
  saveBtn_disabled :: bool
  saveBtn_text :: string
  loadingDiv :: "string option"
  results_items :: "search_result list"
  results_message :: string
  searchSelectedResults :: "nat list"
  panel_notifications :: "(string \<times> string) list"
  save_status :: "(string \<times> string) list"
  timers :: "timer list"

text \<open>The state when the content script is loaded, before the panel is created.\<close>

definition panel_init :: panel where
  "panel_init =
     \<lparr>enableContextMenu = True, sidePanel = False, isPanelOpen = False, panel_open_class = False,
      selectedText = [], dbSelect_value = [], newDbInput_value = [], tagsInput_value = [],
      body_opacity = [], saveBtn_disabled = True, saveBtn_text = ''Save Selected Text'',
      loadingDiv = None, results_items = [], results_message = [], searchSelectedResults = [],
      panel_notifications = [], save_status = [], timers = []\<rparr>"

definition createSidePanel :: "panel \<Rightarrow> panel" where
  "createSidePanel p =
     (if sidePanel p then p
      else if \<not> enableContextMenu p then p
      else p\<lparr>sidePanel := True\<rparr>)"

text \<open>
  \<^verbatim>\<open>showSidePanel\<close>; when no panel could be created, adding the class throws and
  nothing changes.
\<close>

definition showSidePanel :: "panel \<Rightarrow> panel" where
  "showSidePanel p =
     (let p1 = (if \<not> sidePanel p then createSidePanel p else p) in
      if \<not> isPanelOpen p1
      then (if sidePanel p1 then p1\<lparr>panel_open_class := True, isPanelOpen := True\<rparr> else p1)
      else p1)"

definition forceHideLoadingState :: "panel \<Rightarrow> panel" where
  "forceHideLoadingState p =
     (if sidePanel p
      then p\<lparr>loadingDiv := map_option (\<lambda>d. ''none'') (loadingDiv p),
             body_opacity := ''1'',
             saveBtn_disabled := (selectedText p = []),
             saveBtn_text := ''Save Selected Text''\<rparr>
      else p)"

definition hideSidePanel :: "panel \<Rightarrow> panel" where
  "hideSidePanel p =
     (if sidePanel p \<and> isPanelOpen p
      then (forceHideLoadingState p)\<lparr>panel_open_class := False, isPanelOpen := False\<rparr>
      else p)"

definition showPanelNotification :: "string \<Rightarrow> string \<Rightarrow> panel \<Rightarrow> panel" where
  "showPanelNotification message type p =
     (if \<not> sidePanel p then p
      else (let p1 = forceHideLoadingState p
            in p1\<lparr>panel_notifications := panel_notifications p1 @ [(message, type)]\<rparr>))"

definition showSaveStatus :: "string \<Rightarrow> string \<Rightarrow> panel \<Rightarrow> panel" where
  "showSaveStatus message type p =
     (if \<not> sidePanel p then p
      else p\<lparr>save_status := save_status p @ [(message, type)]\<rparr>)"

definition clearSelectedText :: "panel \<Rightarrow> panel" where
  "clearSelectedText p =
     (let p1 = p\<lparr>selectedText := []\<rparr> in
      if \<not> sidePanel p1 then p1
      else p1\<lparr>saveBtn_disabled := True, saveBtn_text := ''Save Selected Text''\<rparr>)"

text \<open>
  What awaiting \<^verbatim>\<open>POST /add-text\<close> can give: the fetch rejects with a message; the
  response is not ok, with its status and its body (\<open>None\<close> when the body does not
  parse, otherwise its \<^verbatim>\<open>detail\<close>, if any); the response is ok and its body parses, or
  is ok and parsing the body throws.
\<close>

datatype add_text_response =
    FetchRejected string
  | ErrorResponse nat "string option option"
  | Saved
  | SavedUnparsable string

text \<open>The message of the error thrown inside the \<^verbatim>\<open>try\<close>, if one is thrown.\<close>

definition thrown_message :: "add_text_response \<Rightarrow> string option" where
  "thrown_message response =
     (case response of
        FetchRejected m \<Rightarrow> Some m
      | ErrorResponse status body \<Rightarrow>
          (case body of
             None \<Rightarrow> Some ''Unknown error''
           | Some None \<Rightarrow> Some (''Server error: '' @ string_of_nat status)
           | Some (Some detail) \<Rightarrow>
               Some (if detail = [] then ''Server error: '' @ string_of_nat status else detail))
      | Saved \<Rightarrow> None
      | SavedUnparsable m \<Rightarrow> Some m)"

definition check_mark :: string where
  "check_mark = [CHR 0xE2, CHR 0x9C, CHR 0x93]"

definition cross_mark :: string where
  "cross_mark = [CHR 0xE2, CHR 0x9C, CHR 0x97]"

text \<open>
  \<^verbatim>\<open>saveTextToDatabase\<close> of the current panel, in the two parts that the \<^verbatim>\<open>await\<close>
  separates. \<open>save_begin\<close> runs to the fetch: it returns the name of the database the
  request is for, or \<open>None\<close> when validation returned before any request.
\<close>

definition save_begin :: "panel \<Rightarrow> panel \<times> string option" where
  "save_begin p =
     (if selectedText p = [] \<or> js_trim (selectedText p) = []
      then (showPanelNotification ''Please select some text first'' ''error'' p, None)
      else if dbSelect_value p = []
      then (showPanelNotification ''Please select a database'' ''error'' p, None)
      else (p\<lparr>body_opacity := ''0.6'', saveBtn_disabled := True, saveBtn_text := ''Saving...''\<rparr>,
            Some (dbSelect_value p)))"

text \<open>The rest of the \<^verbatim>\<open>try\<close> block after a good response.\<close>

definition save_succeeded :: "string \<Rightarrow> panel \<Rightarrow> panel" where
  "save_succeeded databaseName p =
     (let p1 = showPanelNotification
                 (''Text saved successfully to '' @ dq @ databaseName @ dq @ '' database!'') ''success'' p;
          p2 = showSaveStatus
                 (check_mark @ '' Text saved successfully to '' @ dq @ databaseName @ dq) ''success'' p1
      in p2\<lparr>timers := timers p2 @ [ClearSelectedText, LoadDatabasesForPanel]\<rparr>)"

text \<open>The \<^verbatim>\<open>catch\<close> block.\<close>

definition save_catch :: "string \<Rightarrow> panel \<Rightarrow> panel" where
  "save_catch message p =
     showSaveStatus (cross_mark @ '' Error: '' @ message) ''error''
       (showPanelNotification (''Error saving text: '' @ message) ''error'' p)"

text \<open>The \<^verbatim>\<open>finally\<close> block.\<close>

definition save_finally :: "panel \<Rightarrow> panel" where
  "save_finally p =
     p\<lparr>body_opacity := ''1'',
       saveBtn_disabled := (\<not> (dbSelect_value p \<noteq> [] \<and> selectedText p \<noteq> [] \<and> js_trim (selectedText p) \<noteq> [])),
       saveBtn_text := ''Save Selected Text''\<rparr>"

text \<open>
  \<open>save_settle\<close> is what runs when the response arrives, on the state the panel has by
  then: the rest of the \<^verbatim>\<open>try\<close> or the \<^verbatim>\<open>catch\<close>, then the \<^verbatim>\<open>finally\<close>.
\<close>

definition save_settle :: "string \<Rightarrow> add_text_response \<Rightarrow> panel \<Rightarrow> panel" where
  "save_settle databaseName response p =
     save_finally
       (case thrown_message response of
          None \<Rightarrow> save_succeeded databaseName p
        | Some message \<Rightarrow> save_catch message p)"

definition saveTextToDatabase :: "add_text_response \<Rightarrow> panel \<Rightarrow> panel" where
  "saveTextToDatabase response p =
     (case save_begin p of
        (p1, None) \<Rightarrow> p1
      | (p1, Some databaseName) \<Rightarrow> save_settle databaseName response p1)"

text \<open>
  \<^verbatim>\<open>saveTextToDatabase\<close> of the earlier panel, which has a loading element, a second
  input for the database name and a tags input. Showing the loading element throws when
  the element is missing, before anything is changed: the result is then \<open>None\<close>.
\<close>

definition earlier_save_begin :: "panel \<Rightarrow> (panel \<times> string option) option" where
  "earlier_save_begin p =
     (if selectedText p = [] \<or> js_trim (selectedText p) = []
      then Some (showPanelNotification ''Please select some text first'' ''error'' p, None)
      else
        let databaseName = (if dbSelect_value p \<noteq> [] then dbSelect_value p
                            else js_trim (newDbInput_value p)) in
        if databaseName = []
        then Some (showPanelNotification ''Please select a database or create a new one'' ''error'' p, None)
        else if loadingDiv p = None then None
        else Some (p\<lparr>loadingDiv := Some ''flex'', body_opacity := ''0.6'',
                      saveBtn_disabled := True, saveBtn_text := ''Saving...''\<rparr>,
                   Some databaseName))"

definition earlier_save_succeeded :: "string \<Rightarrow> panel \<Rightarrow> panel" where
  "earlier_save_succeeded databaseName p =
     (let p1 = p\<lparr>dbSelect_value := [], newDbInput_value := [], tagsInput_value := []\<rparr>;
          p2 = clearSelectedText p1;
          p3 = showPanelNotification
                 (''Text saved successfully to '' @ dq @ databaseName @ dq @ '' database!'') ''success'' p2
      in p3\<lparr>timers := timers p3 @ [LoadDatabasesForPanel]\<rparr>)"

definition earlier_save_catch :: "string \<Rightarrow> panel \<Rightarrow> panel" where
  "earlier_save_catch message p =
     showPanelNotification (''Error saving text: '' @ message) ''error'' p"

definition earlier_save_finally :: "panel \<Rightarrow> panel" where
  "earlier_save_finally p =
     p\<lparr>loadingDiv := map_option (\<lambda>d. ''none'') (loadingDiv p),
       body_opacity := ''1'',
       saveBtn_disabled := (selectedText p = []),
       saveBtn_text := ''Save Selected Text''\<rparr>"

definition earlier_save_settle :: "string \<Rightarrow> add_text_response \<Rightarrow> panel \<Rightarrow> panel" where
  "earlier_save_settle databaseName response p =
     earlier_save_finally
       (case thrown_message response of
          None \<Rightarrow> earlier_save_succeeded databaseName p
        | Some message \<Rightarrow> earlier_save_catch message p)"

definition earlier_saveTextToDatabase :: "add_text_response \<Rightarrow> panel \<Rightarrow> panel option" where
  "earlier_saveTextToDatabase response p =
     (case earlier_save_begin p of
        None \<Rightarrow> None
      | Some (p1, None) \<Rightarrow> Some p1
      | Some (p1, Some databaseName) \<Rightarrow> Some (earlier_save_settle databaseName response p1))"

text \<open>
  The saving state the user sees: the dimmed body, the save button reading
  \<^verbatim>\<open>Saving...\<close>, the loading element shown.
\<close>

definition busy :: "panel \<Rightarrow> bool" where
  "busy p = (body_opacity p = ''0.6'' \<or> saveBtn_text p = ''Saving...'' \<or> loadingDiv p = Some ''flex'')"

text \<open>
  \<^verbatim>\<open>performPanelSearch\<close> on the panel's state, in the two parts that its awaits
  separate: up to the first request (the prompts of validation replace the results; a
  search that goes on shows \<^verbatim>\<open>Searching...\<close> and clears the selection), and the display
  of the outcome when the last response has arrived.
\<close>

definition panel_search_begin :: "string \<Rightarrow> string \<Rightarrow> panel \<Rightarrow> panel \<times> bool" where
  "panel_search_begin queryInput selectedDb p =
     (if js_trim queryInput = []
      then (p\<lparr>results_items := [], results_message := ''Enter a query to search.''\<rparr>, False)
      else if selectedDb = []
      then (p\<lparr>results_items := [], results_message := ''Please select a database to search.''\<rparr>,
            False)
      else (p\<lparr>results_items := [], results_message := ''Searching...'',
              searchSelectedResults := []\<rparr>, True))"

definition renderPanelSearchResults :: "search_result list \<Rightarrow> bool \<Rightarrow> panel \<Rightarrow> panel" where
  "renderPanelSearchResults results searchedAll p =
     (if results = [] then p\<lparr>results_items := [], results_message := ''No results.''\<rparr>
      else p\<lparr>results_items := results, results_message := []\<rparr>)"

definition panel_search_settle :: "search_outcome \<Rightarrow> panel \<Rightarrow> panel" where
  "panel_search_settle outcome p =
     (case outcome of
        Found limited searchAllDb \<Rightarrow> renderPanelSearchResults limited searchAllDb p
      | SearchFailed \<Rightarrow>
          p\<lparr>results_items := [], results_message := ''Search failed. Please try again.''\<rparr>
      | EnterQuery \<Rightarrow> p
      | SelectDatabase \<Rightarrow> p)"

definition panel_checkbox_change :: "nat \<Rightarrow> bool \<Rightarrow> panel \<Rightarrow> panel" where
  "panel_checkbox_change i checked p =
     (if i < length (results_items p)
      then p\<lparr>searchSelectedResults := checkbox_change i checked (searchSelectedResults p)\<rparr>
      else p)"

text \<open>
  What can still happen to a panel after it was closed, from work started before: a save
  settles, a search settles, a timer of a finished save fires (the timer of the reload
  only starts the request), the reload of the databases fills the select and leaves it
  at some value.
\<close>

datatype completion =
    SaveSettles string add_text_response
  | EarlierSaveSettles string add_text_response
  | SearchSettles search_outcome
  | TimerFires timer
  | DatabasesLoaded string

fun settle :: "completion \<Rightarrow> panel \<Rightarrow> panel" where
  "settle (SaveSettles databaseName response) p = save_settle databaseName response p"
| "settle (EarlierSaveSettles databaseName response) p = earlier_save_settle databaseName response p"
| "settle (SearchSettles outcome) p = panel_search_settle outcome p"
| "settle (TimerFires ClearSelectedText) p = clearSelectedText p"
| "settle (TimerFires LoadDatabasesForPanel) p = p"
| "settle (DatabasesLoaded v) p = p\<lparr>dbSelect_value := v\<rparr>"

text \<open>
  The panel is closed and shows no saving state: the open flag and the open class are
  off, the body is not dimmed, the save button has its label, no loading element is
  shown.
\<close>

definition closed_idle :: "panel \<Rightarrow> bool" where
  "closed_idle p = (\<not> isPanelOpen p \<and> \<not> panel_open_class p \<and> \<not> busy p
     \<and> body_opacity p = ''1'' \<and> saveBtn_text p = ''Save Selected Text''
     \<and> loadingDiv p \<noteq> Some ''flex'')"

text \<open>
  The indicator of a search in flight: the results area reads \<^verbatim>\<open>Searching...\<close>.
\<close>

definition searching :: "panel \<Rightarrow> bool" where
  "searching p = (results_message p = ''Searching...'')"

text \<open>
  An open panel with a text selected and a database chosen, the same panel while its
  save is in flight, and the same panel while a search is in flight.
\<close>

definition ready_panel :: panel where
  "ready_panel = (showSidePanel panel_init)\<lparr>selectedText := ''some text'', dbSelect_value := ''A''\<rparr>"

definition saving_panel :: panel where
  "saving_panel = fst (save_begin ready_panel)"

definition searching_panel :: panel where
  "searching_panel = fst (panel_search_begin ''q'' ''A'' ready_panel)"

section \<open>Facts about the primitives\<close>

lemma trim_q: "js_trim ''q'' = ''q''"
  by (simp add: js_trim_def js_whitespace_def)

lemma ceil_div_ceiling: "ceil_div a b = \<lceil>rat_of_int a / rat_of_int b\<rceil>"
proof -
  have "\<lceil>rat_of_int a / rat_of_int b\<rceil> = - \<lfloor>rat_of_int (- a) / rat_of_int b\<rfloor>"
    by (simp add: ceiling_def)
  also have "\<dots> = - ((- a) div b)"
    by (simp only: floor_divide_of_int_eq)
  finally show ?thesis
    by (simp add: ceil_div_def)
qed

lemma js_insert_insort_key: "js_insert by_score_desc x ys = insort_key (\<lambda>r. - score r) x ys"
  by (induction ys) (simp_all add: by_score_desc_def)

lemma js_sort_sort_key: "js_sort by_score_desc xs = sort_key (\<lambda>r. - score r) xs"
  by (induction xs) (simp_all add: js_insert_insort_key)

lemma sorted_desc_sort_key: "sorted_wrt (\<lambda>a b. score b \<le> score a) (sort_key (\<lambda>r. - score r) xs)"
proof -
  have "sorted (map (\<lambda>r. - score r) (sort_key (\<lambda>r. - score r) xs))"
    by (rule sorted_sort_key)
  then show ?thesis
    by (simp add: sorted_wrt_map)
qed

lemma js_sort_sorted: "sorted_wrt (\<lambda>a b. score b \<le> score a) (js_sort by_score_desc xs)"
  by (simp add: js_sort_sort_key sorted_desc_sort_key)

lemma js_sort_stable:
  "filter (\<lambda>r. score r = k) (js_sort by_score_desc xs) = filter (\<lambda>r. score r = k) xs"
  using sort_key_stable [of "\<lambda>r. - score r" "- k" xs] by (simp add: js_sort_sort_key)

lemma js_slice0_take: "0 \<le> e \<Longrightarrow> js_slice0 xs e = take (nat e) xs"
  by (simp add: js_slice0_def)

lemma slice_sort_bounded:
  assumes "0 < limit"
  shows "length (js_slice0 (js_sort by_score_desc xs) limit) \<le> nat limit"
    and "sorted_wrt (\<lambda>a b. score b \<le> score a) (js_slice0 (js_sort by_score_desc xs) limit)"
  using assms by (simp_all add: js_slice0_def sorted_wrt_take js_sort_sorted)

section \<open>The merge of a search of all databases\<close>

lemma concat_surviving:
  "concat (map (\<lambda>db. case answer db of Ok res \<Rightarrow> map (tag_with db) res | NotOk \<Rightarrow> [] | Threw \<Rightarrow> []) dbs)
     = concat (surviving_partials answer dbs)"
  by (induction dbs) (simp_all add: surviving_partials_def map_filter_simps split: fetch_response.split)

lemma surviving_Cons:
  "surviving_partials answer (db # dbs) =
     (case answer db of Ok res \<Rightarrow> map (tag_with db) res # surviving_partials answer dbs
      | _ \<Rightarrow> surviving_partials answer dbs)"
  by (simp add: surviving_partials_def map_filter_simps split: fetch_response.split)

lemma surviving_Nil: "surviving_partials answer [] = []"
  by (simp add: surviving_partials_def map_filter_simps)

lemma surviving_origin:
  "r \<in> set (concat (surviving_partials answer dbs)) \<Longrightarrow>
     \<exists>db \<in> set dbs. \<not> source_failed answer db \<and> database_name r = Some (db_name db)"
proof (induction dbs)
  case Nil
  then show ?case by (simp add: surviving_Nil)
next
  case (Cons db dbs)
  show ?case
  proof (cases "answer db")
    case (Ok res)
    with Cons.prems have "r \<in> set (map (tag_with db) res) \<or> r \<in> set (concat (surviving_partials answer dbs))"
      by (simp add: surviving_Cons)
    then show ?thesis
    proof
      assume "r \<in> set (map (tag_with db) res)"
      then have "database_name r = Some (db_name db)"
        by (auto simp: tag_with_def)
      with Ok show ?thesis
        by (simp add: source_failed_def)
    next
      assume "r \<in> set (concat (surviving_partials answer dbs))"
      with Cons.IH show ?thesis by auto
    qed
  next
    case Threw
    with Cons show ?thesis by (auto simp: surviving_Cons)
  next
    case NotOk
    with Cons show ?thesis by (auto simp: surviving_Cons)
  qed
qed

lemma spec_merge_origin:
  assumes "r \<in> set (spec_merge answer dbs limit)"
  shows "\<exists>db \<in> set dbs. \<not> source_failed answer db \<and> database_name r = Some (db_name db)"
proof -
  from assms have "r \<in> set (sort_key (\<lambda>r. - score r) (concat (surviving_partials answer dbs)))"
    unfolding spec_merge_def by (rule in_set_takeD)
  then have "r \<in> set (concat (surviving_partials answer dbs))"
    by simp
  then show ?thesis by (rule surviving_origin)
qed

lemma spec_merge_sorted: "sorted_wrt (\<lambda>a b. score b \<le> score a) (spec_merge answer dbs limit)"
  unfolding spec_merge_def by (rule sorted_wrt_take) (rule sorted_desc_sort_key)

lemma spec_merge_length:
  "length (spec_merge answer dbs limit) = min (nat limit) (sum_list (map length (surviving_partials answer dbs)))"
  by (simp add: spec_merge_def length_concat min.commute)

lemma merge_refines:
  assumes "0 \<le> limit"
  shows "js_slice0 (js_sort by_score_desc
           (concat (map (\<lambda>db. case answer db of Ok res \<Rightarrow> map (tag_with db) res | NotOk \<Rightarrow> [] | Threw \<Rightarrow> []) dbs))) limit
         = spec_merge answer dbs limit"
  using assms by (simp add: js_slice0_take js_sort_sort_key concat_surviving spec_merge_def)

lemma panel_all_outcome:
  assumes "js_trim queryInput \<noteq> []"
  shows "snd (performPanelSearch (Ok dbs) backend queryInput ''__ALL__'' limitInput minScoreInput)
       = Found (js_slice0 (js_sort by_score_desc (concat (map (\<lambda>db.
            case backend (panel_request (js_trim queryInput) (perDb (limit_or_default limitInput) dbs)
                   (min_score_or_default minScoreInput) db)
            of Ok res \<Rightarrow> map (tag_with db) res | NotOk \<Rightarrow> [] | Threw \<Rightarrow> []) dbs)))
          (limit_or_default limitInput)) True"
  using assms by (simp add: performPanelSearch_def Let_def panel_search_one_def [abs_def])

lemma popup_all_outcome:
  assumes "js_trim queryInput \<noteq> []"
  shows "snd (performSearch dbs backend queryInput True dbName limitInput)
       = RenderSearchResults (js_slice0 (js_sort by_score_desc (concat (map (\<lambda>db.
            case backend (popup_request (js_trim queryInput) (limit_or_default limitInput) dbs db)
            of Ok res \<Rightarrow> map (tag_with db) res | NotOk \<Rightarrow> [] | Threw \<Rightarrow> []) dbs)))
          (limit_or_default limitInput)) True"
  using assms by (simp add: performSearch_def Let_def popup_search_one_def [abs_def])

text \<open>
  Claim C1. For a search of all databases over a non-empty source list, with a positive
  limit, what the panel renders and what the popup renders is the merge in the words of
  the specification: the partial results of the sources whose requests succeeded, each
  row tagged with its source, concatenated in source order, sorted stably by descending
  score and truncated to the limit. Every row of such a merge carries the name of a
  source that did not fail, its scores do not increase, and its length is the smaller
  of the limit and the number of surviving rows (so three hits of A and five of C with
  limit 5 give exactly five rows, all of A and C).
\<close>

theorem C1_all_scope_merge:
  assumes "js_trim queryInput \<noteq> []" and "dbs \<noteq> []" and "0 < limit_or_default limitInput"
  shows "(let limit = limit_or_default limitInput;
              panel_answer = (\<lambda>db. backend (panel_request (js_trim queryInput) (perDb limit dbs)
                                 (min_score_or_default minScoreInput) db));
              popup_answer = (\<lambda>db. backend (popup_request (js_trim queryInput) limit dbs db))
          in snd (performPanelSearch (Ok dbs) backend queryInput ''__ALL__'' limitInput minScoreInput)
               = Found (spec_merge panel_answer dbs limit) True
           \<and> snd (performSearch dbs backend queryInput True dbName limitInput)
               = RenderSearchResults (spec_merge popup_answer dbs limit) True
           \<and> (\<forall>answer. (\<forall>r \<in> set (spec_merge answer dbs limit).
                  \<exists>db \<in> set dbs. \<not> source_failed answer db \<and> database_name r = Some (db_name db))
                \<and> sorted_wrt (\<lambda>a b. score b \<le> score a) (spec_merge answer dbs limit)
                \<and> length (spec_merge answer dbs limit)
                     = min (nat limit) (sum_list (map length (surviving_partials answer dbs)))))"
proof -
  have l: "0 \<le> limit_or_default limitInput"
    using assms(3) by simp
  show ?thesis
    unfolding Let_def
    by (intro conjI allI ballI)
       (simp_all add: panel_all_outcome [OF assms(1)] popup_all_outcome [OF assms(1)]
          merge_refines [OF l] spec_merge_origin spec_merge_sorted spec_merge_length)
qed

text \<open>
  The scenario itself: A has three hits, B fails, C has five, the limit is 5. Five rows
  come back, of A and C only, and the tie at 0.7 keeps A before C.
\<close>

theorem C1_witness:
  "js_trim ''q'' \<noteq> [] \<and> [sourceA, sourceB, sourceC] \<noteq> [] \<and> 0 < limit_or_default (Some 5)
   \<and> snd (performPanelSearch (Ok [sourceA, sourceB, sourceC]) scenario_backend ''q'' ''__ALL__'' (Some 5) None)
       = Found [tag_with sourceC (row ''c1'' (95/100)), tag_with sourceA (row ''a1'' (9/10)),
                tag_with sourceA (row ''a2'' (7/10)), tag_with sourceC (row ''c2'' (7/10)),
                tag_with sourceC (row ''c3'' (6/10))] True
   \<and> snd (performSearch [sourceA, sourceB, sourceC] scenario_backend ''q'' True [] (Some 5))
       = RenderSearchResults [tag_with sourceC (row ''c1'' (95/100)), tag_with sourceA (row ''a1'' (9/10)),
                tag_with sourceA (row ''a2'' (7/10)), tag_with sourceC (row ''c2'' (7/10)),
                tag_with sourceC (row ''c3'' (6/10))] True"
  using C1_all_scope_merge [of "''q''" "[sourceA, sourceB, sourceC]" "Some 5" scenario_backend None "[]"]
  by (simp add: trim_q limit_or_default_def Let_def spec_merge_def surviving_Cons surviving_Nil
        scenario_backend_def panel_request_def popup_request_def sourceA_def sourceB_def sourceC_def
        hitsA_def hitsC_def row_def tag_with_def)

section \<open>The order of the composed context\<close>

lemma context_loop_eq:
  "context_loop entry nodes sel (idx, ctx) =
     (idx + length (visited nodes sel), ctx @ entries_from entry idx nodes sel)"
proof (induction sel arbitrary: idx ctx)
  case Nil
  then show ?case by (simp add: visited_def entries_from_def)
next
  case (Cons i sel)
  show ?case
  proof (cases "i < length nodes")
    case True
    have shift: "map (\<lambda>(k, j). entry (idx + k) (nodes ! j)) (zip [Suc 0..<Suc n] xs)
               = map (\<lambda>(k, j). entry (Suc idx + k) (nodes ! j)) (zip [0..<n] xs)" for n xs
      by (simp add: map_Suc_upt [symmetric] zip_map1 case_prod_unfold del: upt_Suc)
    from True show ?thesis
      by (simp add: Cons.IH visited_def entries_from_def upt_rec [of 0] shift del: upt_Suc)
  next
    case False
    then show ?thesis
      by (simp add: Cons.IH visited_def entries_from_def)
  qed
qed

lemma select_all_upt: "select_all n = [0..<n]"
  by (induction n) (simp_all add: select_all_def set_add_def)

text \<open>
  Checking result 2 and then result 0 of three puts the entry of rank 2 first, in the
  panel and in the popup: the order is not the ascending order of ranks.
\<close>

theorem C2_counterexample:
  "create_context three_nodes (checkbox_change 0 True (checkbox_change 2 True []))
     = panel_header @ panel_entry 1 (three_nodes ! 2) @ panel_entry 2 (three_nodes ! 0)
   \<and> create_context three_nodes (checkbox_change 0 True (checkbox_change 2 True []))
     \<noteq> panel_header @ panel_entry 1 (three_nodes ! 0) @ panel_entry 2 (three_nodes ! 2)
   \<and> createContextText (\<lambda>s. s) three_nodes (set_add 0 (set_add 2 []))
     = Some (popup_header @ popup_entry (\<lambda>s. s) 1 (three_nodes ! 2)
               @ popup_entry (\<lambda>s. s) 2 (three_nodes ! 0) @ popup_footer)"
  by (simp add: create_context_def createContextText_def checkbox_change_def set_add_def
        three_nodes_def panel_entry_def popup_entry_def panel_header_def)

text \<open>
  Claim C2, as the code has it. Both composers write one entry per selected index that
  has a rendered item, numbered from 1, in the order of the selection list, which is
  the order in which the indices were added to the set; the popup refuses an empty
  selection. Select All adds the indices in ascending order.
\<close>

theorem C2_compose_insertion_order:
  "create_context nodes sel = panel_header @ entries_from panel_entry 1 nodes sel
   \<and> createContextText decodeHtml nodes sel
       = (if sel = [] then None
          else Some (popup_header @ entries_from (popup_entry decodeHtml) 1 nodes sel @ popup_footer))
   \<and> select_all n = [0..<n]"
  by (simp add: create_context_def createContextText_def context_loop_eq select_all_upt)

text \<open>The same selection through the general statement.\<close>

theorem C2_witness:
  "create_context three_nodes [2, 0]
     = panel_header @ panel_entry 1 (three_nodes ! 2) @ panel_entry 2 (three_nodes ! 0)"
  using C2_compose_insertion_order [of three_nodes "[2, 0]"]
  by (simp add: entries_from_def visited_def three_nodes_def upt_rec [of 0] upt_rec [of 1] numeral_2_eq_2)

section \<open>Failed sources\<close>

lemma panel_search_one_degrade:
  "panel_search_one (degrade backend) query per minScore = panel_search_one backend query per minScore"
  by (rule ext) (simp add: panel_search_one_def degrade_def split: fetch_response.split)

lemma popup_search_one_degrade:
  "popup_search_one (degrade backend) query limit cached = popup_search_one backend query limit cached"
  by (rule ext) (simp add: popup_search_one_def degrade_def split: fetch_response.split)

text \<open>
  A search of all databases against one source that fails returns the same requests and
  the same outcome as against one source that succeeds with no rows, in the panel and in
  the popup, while the numbers of failed requests are 1 and 0: nothing that is returned
  tells the two apart.
\<close>

theorem C3_counterexample:
  "performPanelSearch (Ok [sourceB]) (\<lambda>req. NotOk) ''q'' ''__ALL__'' (Some 5) None
     = performPanelSearch (Ok [sourceB]) (\<lambda>req. Ok []) ''q'' ''__ALL__'' (Some 5) None
   \<and> failed_count (\<lambda>req. NotOk)
        (fst (performPanelSearch (Ok [sourceB]) (\<lambda>req. NotOk) ''q'' ''__ALL__'' (Some 5) None)) = 1
   \<and> failed_count (\<lambda>req. Ok [])
        (fst (performPanelSearch (Ok [sourceB]) (\<lambda>req. Ok []) ''q'' ''__ALL__'' (Some 5) None)) = 0
   \<and> performSearch [sourceB] (\<lambda>req. NotOk) ''q'' True [] (Some 5)
     = performSearch [sourceB] (\<lambda>req. Ok []) ''q'' True [] (Some 5)"
  by (simp add: performPanelSearch_def performSearch_def Let_def trim_q panel_search_one_def
        popup_search_one_def failed_count_def)

text \<open>
  Claim C3, as the code has it. A search of all databases returns only the requests it
  sent and the rendered outcome; a failed source contributes the empty partial result,
  so the whole return value is the one obtained when every failure is replaced by a
  success with no rows. No count of failures is part of it.
\<close>

theorem C3_failure_not_reported:
  "performPanelSearch dbResp (degrade backend) queryInput ''__ALL__'' limitInput minScoreInput
     = performPanelSearch dbResp backend queryInput ''__ALL__'' limitInput minScoreInput
   \<and> performSearch cached (degrade backend) queryInput True dbName limitInput
     = performSearch cached backend queryInput True dbName limitInput"
  by (simp add: performPanelSearch_def performSearch_def Let_def panel_search_one_degrade
        popup_search_one_degrade split: fetch_response.split)

section \<open>The limit sent to each source\<close>

lemma panel_requests_limit:
  assumes "js_trim queryInput \<noteq> []"
  shows "fst (performPanelSearch (Ok dbs) backend queryInput ''__ALL__'' limitInput minScoreInput)
       = map (panel_request (js_trim queryInput) (perDb (limit_or_default limitInput) dbs) (min_score_or_default minScoreInput)) dbs"
  using assms by (simp add: performPanelSearch_def Let_def)

lemma popup_requests_limit:
  assumes "js_trim queryInput \<noteq> []"
  shows "fst (performSearch dbs backend queryInput True dbName limitInput)
       = map (popup_request (js_trim queryInput) (limit_or_default limitInput) dbs) dbs"
  using assms by (simp add: performSearch_def Let_def)

text \<open>
  With limit 10 and two databases the popup asks each database for 7 rows, where the
  formula of the claim gives 6.
\<close>

theorem C4_popup_counterexample:
  "map req_limit (fst (performSearch [sourceA, sourceB] (\<lambda>req. Ok []) ''q'' True [] (Some 10))) = [7, 7]
   \<and> max 5 (\<lceil>rat_of_int (limit_or_default (Some 10)) / rat_of_int (int (length [sourceA, sourceB]))\<rceil> + 1)
       = (6::int)"
  by (simp add: performSearch_def Let_def trim_q popup_request_def limit_or_default_def ceil_div_def)

text \<open>
  Claim C4, as the code has it. In a search of all databases over at least one source,
  one request is sent per source, in order. In the panel every request carries the limit
  \<open>max 5 (\<lceil>limit / sourceCount\<rceil> + 1)\<close>; in the popup every request carries
  \<open>\<lceil>limit / sourceCount\<rceil> + 2\<close>.
\<close>

theorem C4_per_source_limit:
  assumes "js_trim queryInput \<noteq> []" and "1 \<le> length dbs"
  shows "(\<forall>req \<in> set (fst (performPanelSearch (Ok dbs) backend queryInput ''__ALL__'' limitInput minScoreInput)).
            req_limit req
              = max 5 (\<lceil>rat_of_int (limit_or_default limitInput) / rat_of_int (int (length dbs))\<rceil> + 1))
       \<and> map req_database_name
            (fst (performPanelSearch (Ok dbs) backend queryInput ''__ALL__'' limitInput minScoreInput))
           = map db_name dbs
       \<and> (\<forall>req \<in> set (fst (performSearch dbs backend queryInput True dbName limitInput)).
            req_limit req
              = \<lceil>rat_of_int (limit_or_default limitInput) / rat_of_int (int (length dbs))\<rceil> + 2)
       \<and> map req_database_name (fst (performSearch dbs backend queryInput True dbName limitInput))
           = map db_name dbs"
proof -
  have n: "max 1 (int (length dbs)) = int (length dbs)"
    using assms(2) by simp
  have a: "\<forall>req \<in> set (fst (performPanelSearch (Ok dbs) backend queryInput ''__ALL__'' limitInput minScoreInput)).
            req_limit req
              = max 5 (\<lceil>rat_of_int (limit_or_default limitInput) / rat_of_int (int (length dbs))\<rceil> + 1)"
    by (simp add: panel_requests_limit [OF assms(1)] panel_request_def perDb_def n ceil_div_ceiling)
  have b: "map req_database_name
            (fst (performPanelSearch (Ok dbs) backend queryInput ''__ALL__'' limitInput minScoreInput))
           = map db_name dbs"
    by (simp add: panel_requests_limit [OF assms(1)] panel_request_def comp_def)
  have c: "\<forall>req \<in> set (fst (performSearch dbs backend queryInput True dbName limitInput)).
            req_limit req
              = \<lceil>rat_of_int (limit_or_default limitInput) / rat_of_int (int (length dbs))\<rceil> + 2"
    by (simp add: popup_requests_limit [OF assms(1)] popup_request_def ceil_div_ceiling)
  have d: "map req_database_name (fst (performSearch dbs backend queryInput True dbName limitInput))
           = map db_name dbs"
    by (simp add: popup_requests_limit [OF assms(1)] popup_request_def comp_def)
  from a b c d show ?thesis
    by (intro conjI)
qed

text \<open>Limit 10 over two sources: 6 per source in the panel, 7 in the popup.\<close>

theorem C4_witness:
  "js_trim ''q'' \<noteq> [] \<and> 1 \<le> length [sourceA, sourceB]
   \<and> max 5 (\<lceil>rat_of_int (limit_or_default (Some 10)) / rat_of_int (int (length [sourceA, sourceB]))\<rceil> + 1)
       = (6::int)
   \<and> map req_limit
        (fst (performPanelSearch (Ok [sourceA, sourceB]) (\<lambda>req. Ok []) ''q'' ''__ALL__'' (Some 10) None))
       = [6, 6]
   \<and> map req_limit (fst (performSearch [sourceA, sourceB] (\<lambda>req. Ok []) ''q'' True [] (Some 10))) = [7, 7]"
  using C4_per_source_limit [where queryInput = "''q''" and dbs = "[sourceA, sourceB]"
          and backend = "\<lambda>req. Ok []" and limitInput = "Some 10" and minScoreInput = None
          and dbName = "[]"]
  by (simp add: trim_q)
     (simp add: performPanelSearch_def performSearch_def Let_def trim_q panel_request_def
        popup_request_def perDb_def limit_or_default_def ceil_div_def)

section \<open>The selection across searches\<close>

text \<open>
  Claim C5 at a failing input. In the popup a search renders one result, the user checks
  it, and a second search succeeds with no rows: \<^verbatim>\<open>renderSearchResults\<close> returns before
  it clears the selection, so the selection still holds index 0 while no result is
  rendered.
\<close>

theorem C5_popup_empty_result_keeps_selection:
  "selectedResults
     (popup_search (\<lambda>req. Ok []) ''q'' False ''A'' (Some 10)
       (toggleResultSelection 0 True
         (popup_search (\<lambda>req. Ok [row ''x'' (9/10)]) ''q'' False ''A'' (Some 10) popup_init))) = [0]
   \<and> searchResults_items
     (popup_search (\<lambda>req. Ok []) ''q'' False ''A'' (Some 10)
       (toggleResultSelection 0 True
         (popup_search (\<lambda>req. Ok [row ''x'' (9/10)]) ''q'' False ''A'' (Some 10) popup_init))) = []"
  by (simp add: popup_search_def performSearch_def Let_def trim_q renderSearchResults_def
        toggleResultSelection_def set_add_def popup_init_def row_def)

text \<open>
  A render of a non-empty list does clear the selection, and the panel clears it when a
  search starts; but a search that starts while another is in flight lets the earlier
  one render after the clearing, and a later shorter list then leaves an index out of
  range.
\<close>

lemma renderSearchResults_clears:
  "results \<noteq> [] \<Longrightarrow> selectedResults (renderSearchResults results searchedAll p) = []"
  by (simp add: renderSearchResults_def)

lemma panel_search_begin_clears:
  "snd (panel_search_begin queryInput selectedDb p) \<Longrightarrow>
     searchSelectedResults (fst (panel_search_begin queryInput selectedDb p)) = []"
  by (simp add: panel_search_begin_def split: if_splits)

lemma panel_overlap_stale_selection:
  "searchSelectedResults
     (panel_search_settle (Found [row ''z'' (5/10)] False)
       (panel_checkbox_change 1 True
         (panel_search_settle (Found [row ''x'' (9/10), row ''y'' (8/10)] False)
           (fst (panel_search_begin ''q2'' ''A''
             (fst (panel_search_begin ''q1'' ''A'' (showSidePanel panel_init)))))))) = [1]
   \<and> length (results_items
     (panel_search_settle (Found [row ''z'' (5/10)] False)
       (panel_checkbox_change 1 True
         (panel_search_settle (Found [row ''x'' (9/10), row ''y'' (8/10)] False)
           (fst (panel_search_begin ''q2'' ''A''
             (fst (panel_search_begin ''q1'' ''A'' (showSidePanel panel_init))))))))) = 1"
  by (simp add: panel_search_settle_def renderPanelSearchResults_def panel_checkbox_change_def
        panel_search_begin_def js_trim_def js_whitespace_def checkbox_change_def set_add_def)

section \<open>Saving never leaves the panel busy\<close>

lemma forceHide_not_busy: "sidePanel p \<Longrightarrow> \<not> busy (forceHideLoadingState p)"
  by (cases "loadingDiv p") (simp_all add: forceHideLoadingState_def busy_def)

lemma save_finally_fields:
  "body_opacity (save_finally p) = ''1''"
  "saveBtn_text (save_finally p) = ''Save Selected Text''"
  "loadingDiv (save_finally p) = loadingDiv p"
  "saveBtn_disabled (save_finally p) = (dbSelect_value p = [] \<or> js_trim (selectedText p) = [])"
  "dbSelect_value (save_finally p) = dbSelect_value p"
  "selectedText (save_finally p) = selectedText p"
  "isPanelOpen (save_finally p) = isPanelOpen p"
  "panel_open_class (save_finally p) = panel_open_class p"
  by (auto simp: save_finally_def js_trim_def)

lemma showPanelNotification_fields:
  "sidePanel p \<Longrightarrow> loadingDiv (showPanelNotification m t p) \<noteq> Some ''flex''"
  "dbSelect_value (showPanelNotification m t p) = dbSelect_value p"
  "selectedText (showPanelNotification m t p) = selectedText p"
  "isPanelOpen (showPanelNotification m t p) = isPanelOpen p"
  "panel_open_class (showPanelNotification m t p) = panel_open_class p"
  "sidePanel (showPanelNotification m t p) = sidePanel p"
  by (cases "loadingDiv p"; simp add: showPanelNotification_def forceHideLoadingState_def Let_def)+

lemma save_succeeded_fields:
  "sidePanel p \<Longrightarrow> loadingDiv (save_succeeded d p) \<noteq> Some ''flex''"
  "isPanelOpen (save_succeeded d p) = isPanelOpen p"
  "panel_open_class (save_succeeded d p) = panel_open_class p"
  by (simp_all add: save_succeeded_def Let_def showSaveStatus_def showPanelNotification_fields)

lemma save_catch_fields:
  "sidePanel p \<Longrightarrow> loadingDiv (save_catch m p) \<noteq> Some ''flex''"
  "isPanelOpen (save_catch m p) = isPanelOpen p"
  "panel_open_class (save_catch m p) = panel_open_class p"
  by (simp_all add: save_catch_def showSaveStatus_def showPanelNotification_fields)

lemma save_settle_fields:
  "body_opacity (save_settle d r p) = ''1''"
  "saveBtn_text (save_settle d r p) = ''Save Selected Text''"
  "isPanelOpen (save_settle d r p) = isPanelOpen p"
  "panel_open_class (save_settle d r p) = panel_open_class p"
  by (simp_all add: save_settle_def save_finally_fields save_succeeded_fields save_catch_fields
        split: option.split)

lemma save_settle_inputs:
  "dbSelect_value (save_settle d r p) = dbSelect_value p"
  "selectedText (save_settle d r p) = selectedText p"
  by (simp_all add: save_settle_def save_finally_fields save_succeeded_def save_catch_def Let_def
        showSaveStatus_def showPanelNotification_fields split: option.split)

lemma save_settle_button:
  "saveBtn_disabled (save_settle d r p) = (dbSelect_value p = [] \<or> js_trim (selectedText p) = [])"
  by (simp add: save_settle_def save_finally_fields save_succeeded_def save_catch_def Let_def
        showSaveStatus_def showPanelNotification_fields split: option.split)

lemma save_settle_loading:
  "sidePanel p \<Longrightarrow> loadingDiv (save_settle d r p) \<noteq> Some ''flex''"
  by (simp add: save_settle_def save_finally_fields save_succeeded_fields save_catch_fields
        split: option.split)

lemma save_settle_loading_kept:
  "loadingDiv p \<noteq> Some ''flex'' \<Longrightarrow> loadingDiv (save_settle d r p) \<noteq> Some ''flex''"
  by (cases "loadingDiv p")
     (auto simp: save_settle_def save_finally_def save_succeeded_def save_catch_def Let_def
        showSaveStatus_def showPanelNotification_def forceHideLoadingState_def split: option.split)

lemma earlier_save_settle_fields:
  "body_opacity (earlier_save_settle d r p) = ''1''"
  "saveBtn_text (earlier_save_settle d r p) = ''Save Selected Text''"
  "loadingDiv (earlier_save_settle d r p) \<noteq> Some ''flex''"
  "isPanelOpen (earlier_save_settle d r p) = isPanelOpen p"
  "panel_open_class (earlier_save_settle d r p) = panel_open_class p"
  by (auto simp: earlier_save_settle_def earlier_save_finally_def earlier_save_succeeded_def
        earlier_save_catch_def Let_def clearSelectedText_def showPanelNotification_def
        forceHideLoadingState_def split: option.split)

lemma save_begin_validation_not_busy:
  "sidePanel p \<Longrightarrow> save_begin p = (q, None) \<Longrightarrow> \<not> busy q"
  by (auto simp: save_begin_def showPanelNotification_def Let_def forceHide_not_busy busy_def
        forceHideLoadingState_def split: if_splits)

lemma save_begin_sidePanel:
  "sidePanel p \<Longrightarrow> save_begin p = (q, x) \<Longrightarrow> sidePanel q"
  by (auto simp: save_begin_def showPanelNotification_fields split: if_splits)

lemma earlier_save_begin_validation_not_busy:
  "sidePanel p \<Longrightarrow> earlier_save_begin p = Some (q, None) \<Longrightarrow> \<not> busy q"
  by (auto simp: earlier_save_begin_def showPanelNotification_def Let_def busy_def
        forceHideLoadingState_def split: if_splits)

lemma saveTextToDatabase_not_busy:
  assumes "sidePanel p"
  shows "\<not> busy (saveTextToDatabase response p)"
proof (cases "save_begin p")
  case (Pair q x)
  show ?thesis
  proof (cases x)
    case None
    with Pair have "saveTextToDatabase response p = q"
      by (simp add: saveTextToDatabase_def)
    moreover from Pair None assms have "\<not> busy q"
      by (simp add: save_begin_validation_not_busy)
    ultimately show ?thesis by simp
  next
    case (Some d)
    with Pair have run: "saveTextToDatabase response p = save_settle d response q"
      by (simp add: saveTextToDatabase_def)
    from Pair assms have "sidePanel q"
      by (rule save_begin_sidePanel [rotated])
    then have "loadingDiv (save_settle d response q) \<noteq> Some ''flex''"
      by (rule save_settle_loading)
    then show ?thesis
      by (simp add: run busy_def save_settle_fields)
  qed
qed

lemma earlier_saveTextToDatabase_not_busy:
  assumes "sidePanel p" and run: "earlier_saveTextToDatabase response p = Some q"
  shows "\<not> busy q"
proof (cases "earlier_save_begin p")
  case None
  with run show ?thesis by (simp add: earlier_saveTextToDatabase_def)
next
  case (Some a)
  obtain q1 x where a: "a = (q1, x)" by (cases a)
  show ?thesis
  proof (cases x)
    case None
    with Some a run have "q = q1"
      by (simp add: earlier_saveTextToDatabase_def)
    moreover from Some a None assms(1) have "\<not> busy q1"
      by (simp add: earlier_save_begin_validation_not_busy)
    ultimately show ?thesis by simp
  next
    case (Some d)
    with \<open>earlier_save_begin p = Some a\<close> a run have "q = earlier_save_settle d response q1"
      by (simp add: earlier_saveTextToDatabase_def)
    then show ?thesis
      by (simp add: busy_def earlier_save_settle_fields)
  qed
qed

lemma trim_some_text: "js_trim ''some text'' = ''some text''"
  by (simp add: js_trim_def js_whitespace_def)

lemma saving_panel_eq:
  "saving_panel = ready_panel\<lparr>body_opacity := ''0.6'', saveBtn_disabled := True, saveBtn_text := ''Saving...''\<rparr>"
  by (simp add: saving_panel_def save_begin_def ready_panel_def trim_some_text)

text \<open>
  Claim C6. Whatever the response to the save request is (a rejected fetch, an error
  status with or without a readable body, a good response, a good response with an
  unreadable body) and whatever state the panel is in when it arrives, after the save
  has settled the body is not dimmed, the save button has its label again and the panel
  is not busy, and the button is enabled exactly when a database is chosen and a text is
  selected; the same reset holds for the earlier panel, and for a whole run of
  \<^verbatim>\<open>saveTextToDatabase\<close> including the exits of validation.
\<close>

theorem C6_save_cleanup:
  assumes "sidePanel p"
  shows "\<not> busy (save_settle databaseName response p)
       \<and> body_opacity (save_settle databaseName response p) = ''1''
       \<and> saveBtn_text (save_settle databaseName response p) = ''Save Selected Text''
       \<and> saveBtn_disabled (save_settle databaseName response p)
           = (dbSelect_value p = [] \<or> js_trim (selectedText p) = [])
       \<and> \<not> busy (earlier_save_settle databaseName response p)
       \<and> body_opacity (earlier_save_settle databaseName response p) = ''1''
       \<and> saveBtn_text (earlier_save_settle databaseName response p) = ''Save Selected Text''
       \<and> \<not> busy (saveTextToDatabase response p)
       \<and> (\<forall>q. earlier_saveTextToDatabase response p = Some q \<longrightarrow> \<not> busy q)"
proof -
  have a: "\<not> busy (save_settle databaseName response p)"
    using save_settle_loading [OF assms, of databaseName response]
    by (simp add: busy_def save_settle_fields)
  have b: "\<not> busy (earlier_save_settle databaseName response p)"
    by (simp add: busy_def earlier_save_settle_fields)
  have c: "\<not> busy (saveTextToDatabase response p)"
    using assms by (rule saveTextToDatabase_not_busy)
  have d: "\<forall>q. earlier_saveTextToDatabase response p = Some q \<longrightarrow> \<not> busy q"
    by (intro allI impI) (rule earlier_saveTextToDatabase_not_busy [OF assms])
  from a b c d show ?thesis
    by (simp only: save_settle_fields save_settle_button earlier_save_settle_fields simp_thms)
qed

text \<open>A save whose fetch is rejected: busy while in flight, not busy afterwards.\<close>

theorem C6_witness:
  "sidePanel ready_panel
   \<and> busy (fst (save_begin ready_panel))
   \<and> \<not> busy (saveTextToDatabase (FetchRejected ''Failed to fetch'') ready_panel)
   \<and> \<not> busy (save_settle ''A'' (FetchRejected ''Failed to fetch'') ready_panel)"
  using C6_save_cleanup [where p = ready_panel and databaseName = "''A''"
          and response = "FetchRejected ''Failed to fetch''"]
  by (simp add: saving_panel_eq [unfolded saving_panel_def] busy_def)
     (simp add: ready_panel_def showSidePanel_def createSidePanel_def panel_init_def)

section \<open>Closing the panel\<close>

lemma closed_idle_settle: "closed_idle p \<Longrightarrow> closed_idle (settle c p)"
proof (cases c)
  case (SaveSettles d r)
  assume "closed_idle p"
  then show ?thesis
    using save_settle_loading_kept [of p d r]
    by (simp add: SaveSettles closed_idle_def busy_def save_settle_fields)
next
  case (EarlierSaveSettles d r)
  assume "closed_idle p"
  then show ?thesis
    by (simp add: EarlierSaveSettles closed_idle_def busy_def earlier_save_settle_fields)
next
  case (SearchSettles outcome)
  assume "closed_idle p"
  then show ?thesis
    by (cases outcome)
       (simp_all add: SearchSettles closed_idle_def busy_def panel_search_settle_def
          renderPanelSearchResults_def)
next
  case (TimerFires t)
  assume "closed_idle p"
  then show ?thesis
    by (cases t) (simp_all add: TimerFires closed_idle_def busy_def clearSelectedText_def Let_def)
next
  case (DatabasesLoaded v)
  assume "closed_idle p"
  then show ?thesis
    by (simp add: DatabasesLoaded closed_idle_def busy_def)
qed

lemma closed_idle_fold: "closed_idle p \<Longrightarrow> closed_idle (fold settle cs p)"
  by (induction cs arbitrary: p) (simp_all add: closed_idle_settle)

lemma hideSidePanel_closed_idle:
  "sidePanel p \<Longrightarrow> isPanelOpen p \<Longrightarrow> closed_idle (hideSidePanel p)"
  by (cases "loadingDiv p")
     (simp_all add: hideSidePanel_def forceHideLoadingState_def closed_idle_def busy_def)

lemma hideSidePanel_results:
  "results_message (hideSidePanel p) = results_message p"
  "results_items (hideSidePanel p) = results_items p"
  "searchSelectedResults (hideSidePanel p) = searchSelectedResults p"
  "panel_notifications (hideSidePanel p) = panel_notifications p"
  "save_status (hideSidePanel p) = save_status p"
  by (simp_all add: hideSidePanel_def forceHideLoadingState_def)

lemma searching_panel_eq:
  "searching_panel = ready_panel\<lparr>results_items := [], results_message := ''Searching...'',
     searchSelectedResults := []\<rparr>"
  by (simp add: searching_panel_def panel_search_begin_def trim_q)

lemma ready_panel_open: "sidePanel ready_panel \<and> isPanelOpen ready_panel"
  by (simp add: ready_panel_def showSidePanel_def createSidePanel_def panel_init_def)

lemma ready_panel_logs: "panel_notifications ready_panel = [] \<and> save_status ready_panel = []"
  by (simp add: ready_panel_def showSidePanel_def createSidePanel_def panel_init_def)

text \<open>
  A search is in flight when the panel is closed: the panel closes, and its results area
  still reads \<^verbatim>\<open>Searching...\<close>; when the search settles, its rows are rendered in the
  closed panel. A save is in flight when the panel is closed: when it settles, its
  notification and its save status are written in the closed panel.
\<close>

theorem C7_counterexample:
  "sidePanel searching_panel \<and> isPanelOpen searching_panel \<and> searching searching_panel
   \<and> \<not> isPanelOpen (hideSidePanel searching_panel)
   \<and> searching (hideSidePanel searching_panel)
   \<and> results_items (hideSidePanel searching_panel) = []
   \<and> results_items (settle (SearchSettles (Found [row ''x'' (9/10)] False))
        (hideSidePanel searching_panel)) = [row ''x'' (9/10)]
   \<and> panel_notifications (hideSidePanel saving_panel) = []
   \<and> panel_notifications (settle (SaveSettles ''A'' Saved) (hideSidePanel saving_panel))
       = [(''Text saved successfully to '' @ dq @ ''A'' @ dq @ '' database!'', ''success'')]
   \<and> save_status (hideSidePanel saving_panel) = []
   \<and> save_status (settle (SaveSettles ''A'' Saved) (hideSidePanel saving_panel))
       = [(check_mark @ '' Text saved successfully to '' @ dq @ ''A'' @ dq, ''success'')]"
proof -
  have a: "sidePanel searching_panel \<and> isPanelOpen searching_panel \<and> searching searching_panel"
    using ready_panel_open by (simp add: searching_panel_eq searching_def)
  have b: "\<not> isPanelOpen (hideSidePanel searching_panel)"
    using a by (simp add: hideSidePanel_def)
  have c: "searching (hideSidePanel searching_panel) \<and> results_items (hideSidePanel searching_panel) = []"
    by (simp add: searching_def hideSidePanel_results searching_panel_eq)
  have d: "results_items (settle (SearchSettles (Found [row ''x'' (9/10)] False))
             (hideSidePanel searching_panel)) = [row ''x'' (9/10)]"
    by (simp add: panel_search_settle_def renderPanelSearchResults_def)
  have closed_panel: "sidePanel (hideSidePanel saving_panel)"
    using ready_panel_open by (simp add: hideSidePanel_def forceHideLoadingState_def saving_panel_eq)
  have e: "panel_notifications (hideSidePanel saving_panel) = []
         \<and> save_status (hideSidePanel saving_panel) = []"
    using ready_panel_logs by (simp add: hideSidePanel_results saving_panel_eq)
  have f: "panel_notifications (settle (SaveSettles ''A'' Saved) (hideSidePanel saving_panel))
             = [(''Text saved successfully to '' @ dq @ ''A'' @ dq @ '' database!'', ''success'')]"
    using closed_panel e
    by (simp add: save_settle_def thrown_message_def save_finally_def save_succeeded_def Let_def
          showSaveStatus_def showPanelNotification_def forceHideLoadingState_def)
  have g: "save_status (settle (SaveSettles ''A'' Saved) (hideSidePanel saving_panel))
             = [(check_mark @ '' Text saved successfully to '' @ dq @ ''A'' @ dq, ''success'')]"
    using closed_panel e
    by (simp add: save_settle_def thrown_message_def save_finally_def save_succeeded_def Let_def
          showSaveStatus_def showPanelNotification_def forceHideLoadingState_def)
  from a b c d e f g show ?thesis
    by (intro conjI) simp_all
qed

text \<open>
  Claim C7, as the code has it. Closing an open panel, also one whose save is in
  flight, gives a closed panel that shows no saving state (the open flag and class are
  off, the body is not dimmed, the save button has its label, no loading element is
  shown), and no sequence of later completions (a save or a search settling, a timer
  firing, the databases reloading) opens it again or brings the saving state back.
  The close leaves the results area, the selection, the notifications and the save
  status as they are, so the indicator of a search in flight stays. Closing a panel
  that is not open changes nothing.
\<close>

theorem C7_close_resets:
  "(sidePanel p \<and> isPanelOpen p \<longrightarrow>
      closed_idle (hideSidePanel p) \<and> (\<forall>cs. closed_idle (fold settle cs (hideSidePanel p))))
   \<and> results_message (hideSidePanel p) = results_message p
   \<and> results_items (hideSidePanel p) = results_items p
   \<and> searching (hideSidePanel p) = searching p
   \<and> searchSelectedResults (hideSidePanel p) = searchSelectedResults p
   \<and> panel_notifications (hideSidePanel p) = panel_notifications p
   \<and> save_status (hideSidePanel p) = save_status p
   \<and> (\<not> isPanelOpen p \<longrightarrow> hideSidePanel p = p)"
proof -
  have a: "sidePanel p \<and> isPanelOpen p \<longrightarrow>
      closed_idle (hideSidePanel p) \<and> (\<forall>cs. closed_idle (fold settle cs (hideSidePanel p)))"
    by (simp add: hideSidePanel_closed_idle closed_idle_fold)
  have b: "\<not> isPanelOpen p \<longrightarrow> hideSidePanel p = p"
    by (simp add: hideSidePanel_def)
  from a b show ?thesis
    by (simp only: hideSidePanel_results searching_def simp_thms)
qed

text \<open>
  Closing while the save is in flight, then the save succeeds and a search settles: the
  panel stays closed and idle, and the close itself wrote no notification.
\<close>

theorem C7_witness:
  "sidePanel saving_panel \<and> isPanelOpen saving_panel \<and> busy saving_panel
   \<and> closed_idle (hideSidePanel saving_panel)
   \<and> closed_idle (fold settle [SaveSettles ''A'' Saved, TimerFires ClearSelectedText,
        SearchSettles (Found [row ''x'' (9/10)] False)] (hideSidePanel saving_panel))
   \<and> panel_notifications (hideSidePanel saving_panel) = panel_notifications saving_panel"
proof -
  have opened: "sidePanel saving_panel \<and> isPanelOpen saving_panel"
    using ready_panel_open by (simp add: saving_panel_eq)
  have saving: "busy saving_panel"
    by (simp add: saving_panel_eq busy_def)
  from C7_close_resets [of saving_panel] opened
  have closed: "closed_idle (hideSidePanel saving_panel)"
    and later: "\<forall>cs. closed_idle (fold settle cs (hideSidePanel saving_panel))"
    and kept: "panel_notifications (hideSidePanel saving_panel) = panel_notifications saving_panel"
    by blast+
  from later have "closed_idle (fold settle [SaveSettles ''A'' Saved, TimerFires ClearSelectedText,
        SearchSettles (Found [row ''x'' (9/10)] False)] (hideSidePanel saving_panel))"
    by (rule spec)
  with opened saving closed kept show ?thesis
    by blast
qed

section \<open>A search of one database\<close>

lemma panel_single_outcome:
  assumes "js_trim queryInput \<noteq> []" and "selectedDb \<noteq> []" and "selectedDb \<noteq> ''__ALL__''"
  shows "snd (performPanelSearch dbResp backend queryInput selectedDb limitInput minScoreInput)
       = (case backend \<lparr>req_database_name = selectedDb, req_query = js_trim queryInput,
                          req_limit = limit_or_default limitInput,
                          req_min_score = min_score_or_default minScoreInput\<rparr>
          of Threw \<Rightarrow> SearchFailed
           | NotOk \<Rightarrow> Found (js_slice0 (js_sort by_score_desc []) (limit_or_default limitInput)) False
           | Ok res \<Rightarrow> Found (js_slice0 (js_sort by_score_desc res) (limit_or_default limitInput)) False)"
  using assms by (simp add: performPanelSearch_def Let_def split: fetch_response.split)

lemma popup_single_outcome:
  assumes "js_trim queryInput \<noteq> []" and "dbName \<noteq> []"
  shows "snd (performSearch cached backend queryInput False dbName limitInput)
       = (case backend \<lparr>req_database_name = dbName, req_query = js_trim queryInput,
                          req_limit = limit_or_default limitInput, req_min_score = 3 / 10\<rparr>
          of Threw \<Rightarrow> PopupSearchFailed
           | NotOk \<Rightarrow> PopupSearchFailed
           | Ok allResults \<Rightarrow> RenderSearchResults allResults False)"
  using assms by (simp add: performSearch_def Let_def split: fetch_response.split)

text \<open>
  In the popup a backend that answers a search of one database with two rows in
  ascending order of score, for limit 1, has both rows rendered in that order.
\<close>

theorem C8_popup_counterexample:
  "snd (performSearch [sourceA] (\<lambda>req. Ok [row ''x'' (3/10), row ''y'' (9/10)]) ''q'' False ''A'' (Some 1))
     = RenderSearchResults [row ''x'' (3/10), row ''y'' (9/10)] False
   \<and> limit_or_default (Some 1) = 1
   \<and> length [row ''x'' (3/10), row ''y'' (9/10)] = 2
   \<and> \<not> sorted_wrt (\<lambda>a b. score b \<le> score a) [row ''x'' (3/10), row ''y'' (9/10)]"
  by (simp add: performSearch_def Let_def trim_q limit_or_default_def row_def)

text \<open>
  Claim C8, as the code has it. For a positive limit, a search of one database in the
  panel renders at most limit rows with scores that do not increase, whatever the
  backend answers. The popup renders the rows of the backend's answer as they are, so
  there the bound and the order are those of the answer.
\<close>

theorem C8_single_source_bounded_sorted:
  assumes "js_trim queryInput \<noteq> []" and "selectedDb \<noteq> []" and "selectedDb \<noteq> ''__ALL__''"
    and "dbName \<noteq> []" and "0 < limit_or_default limitInput"
  shows "(\<forall>rs flag. snd (performPanelSearch dbResp backend queryInput selectedDb limitInput minScoreInput) = Found rs flag
            \<longrightarrow> int (length rs) \<le> limit_or_default limitInput \<and> sorted_wrt (\<lambda>a b. score b \<le> score a) rs)
       \<and> (\<forall>rs flag. snd (performSearch cached backend queryInput False dbName limitInput) = RenderSearchResults rs flag
            \<longrightarrow> backend \<lparr>req_database_name = dbName, req_query = js_trim queryInput,
                           req_limit = limit_or_default limitInput, req_min_score = 3 / 10\<rparr> = Ok rs)"
proof (intro conjI allI impI)
  fix rs flag
  assume "snd (performPanelSearch dbResp backend queryInput selectedDb limitInput minScoreInput) = Found rs flag"
  then have found: "(case backend \<lparr>req_database_name = selectedDb, req_query = js_trim queryInput,
                          req_limit = limit_or_default limitInput,
                          req_min_score = min_score_or_default minScoreInput\<rparr>
          of Threw \<Rightarrow> SearchFailed
           | NotOk \<Rightarrow> Found (js_slice0 (js_sort by_score_desc []) (limit_or_default limitInput)) False
           | Ok res \<Rightarrow> Found (js_slice0 (js_sort by_score_desc res) (limit_or_default limitInput)) False)
          = Found rs flag"
    by (simp only: panel_single_outcome [OF assms(1-3)])
  have "\<exists>xs. rs = js_slice0 (js_sort by_score_desc xs) (limit_or_default limitInput)"
  proof (cases "backend \<lparr>req_database_name = selectedDb, req_query = js_trim queryInput,
                          req_limit = limit_or_default limitInput,
                          req_min_score = min_score_or_default minScoreInput\<rparr>")
    case Threw
    with found show ?thesis by simp
  next
    case NotOk
    with found have "rs = js_slice0 (js_sort by_score_desc []) (limit_or_default limitInput)"
      by (simp del: js_sort.simps)
    then show ?thesis ..
  next
    case (Ok res)
    with found have "rs = js_slice0 (js_sort by_score_desc res) (limit_or_default limitInput)"
      by simp
    then show ?thesis ..
  qed
  then obtain xs where rs: "rs = js_slice0 (js_sort by_score_desc xs) (limit_or_default limitInput)" ..
  show "int (length rs) \<le> limit_or_default limitInput"
    using slice_sort_bounded(1) [OF assms(5), of xs] assms(5) by (simp add: rs nat_le_iff)
  show "sorted_wrt (\<lambda>a b. score b \<le> score a) rs"
    using slice_sort_bounded(2) [OF assms(5), of xs] by (simp add: rs)
next
  fix rs flag
  assume "snd (performSearch cached backend queryInput False dbName limitInput) = RenderSearchResults rs flag"
  then show "backend \<lparr>req_database_name = dbName, req_query = js_trim queryInput,
                req_limit = limit_or_default limitInput, req_min_score = 3 / 10\<rparr> = Ok rs"
    unfolding popup_single_outcome [OF assms(1,4)]
    by (auto split: fetch_response.splits)
qed

text \<open>
  The same answer in both: the panel sorts and truncates, the popup passes it through.
\<close>

theorem C8_witness:
  "js_trim ''q'' \<noteq> [] \<and> ''A'' \<noteq> [] \<and> ''A'' \<noteq> ''__ALL__'' \<and> 0 < limit_or_default (Some 1)
   \<and> snd (performPanelSearch NotOk (\<lambda>req. Ok [row ''x'' (3/10), row ''y'' (9/10)]) ''q'' ''A'' (Some 1) None)
       = Found [row ''y'' (9/10)] False
   \<and> int (length [row ''y'' (9/10)]) \<le> limit_or_default (Some 1)
   \<and> sorted_wrt (\<lambda>a b. score b \<le> score a) [row ''y'' (9/10)]
   \<and> snd (performSearch [sourceA] (\<lambda>req. Ok [row ''x'' (3/10), row ''y'' (9/10)]) ''q'' False ''A'' (Some 1))
       = RenderSearchResults [row ''x'' (3/10), row ''y'' (9/10)] False"
  using C8_single_source_bounded_sorted [of "''q''" "''A''" "''A''" "Some 1" NotOk
      "\<lambda>req. Ok [row ''x'' (3/10), row ''y'' (9/10)]" None "[sourceA]"]
  by (simp add: performPanelSearch_def performSearch_def Let_def trim_q limit_or_default_def row_def
        js_slice0_def by_score_desc_def)

section \<open>Creating a database twice\<close>

lemma createDatabase_rejects_cached:
  assumes "js_trim (newDbNameInput_value p) \<noteq> []"
    and "\<exists>db \<in> set (databases p). db_name db = js_trim (newDbNameInput_value p)"
  shows "createDatabase notify_panel response reload p
       = showNotification ''Database already exists'' ''error'' p"
  using assms by (simp add: createDatabase_def Let_def)

lemma createDatabase_databases:
  assumes "js_trim input \<noteq> []" and "\<exists>db \<in> set dbs. db_name db = js_trim input"
  shows "\<exists>db \<in> set (databases (createDatabase notify_panel (Ok ()) (Ok dbs) (p\<lparr>newDbNameInput_value := input\<rparr>))).
           db_name db = js_trim input"
proof (cases "\<exists>db \<in> set (databases p). db_name db = js_trim input")
  case True
  with assms(1) show ?thesis
    by (simp add: createDatabase_def Let_def showNotification_def)
next
  case False
  with assms show ?thesis
    by (simp add: createDatabase_def Let_def showNotification_def loadDatabases_def)
qed

text \<open>
  Claim C9. When a creation is answered with success and the reload that follows
  answers with a list that has the new name, a second creation with the same input is
  refused with \<^verbatim>\<open>Database already exists\<close>: it sends no request and no message, and
  leaves the cache as it is. This holds for both variants of \<^verbatim>\<open>createDatabase\<close>.
\<close>

theorem C9_second_create_rejected_locally:
  assumes "js_trim input \<noteq> []" and "\<exists>db \<in> set dbs. db_name db = js_trim input"
  shows "(let p1 = createDatabase notify_panel (Ok ()) (Ok dbs) (p\<lparr>newDbNameInput_value := input\<rparr>);
              p2 = createDatabase notify_panel response2 reload2 (p1\<lparr>newDbNameInput_value := input\<rparr>)
          in http_calls p2 = http_calls p1
           \<and> tab_messages p2 = tab_messages p1
           \<and> databases p2 = databases p1
           \<and> popup_notifications p2 = popup_notifications p1 @ [(''Database already exists'', ''error'')])"
proof -
  define p1 where "p1 = createDatabase notify_panel (Ok ()) (Ok dbs) (p\<lparr>newDbNameInput_value := input\<rparr>)"
  have cached: "\<exists>db \<in> set (databases p1). db_name db = js_trim input"
    unfolding p1_def using assms by (rule createDatabase_databases)
  have "createDatabase notify_panel response2 reload2 (p1\<lparr>newDbNameInput_value := input\<rparr>)
      = showNotification ''Database already exists'' ''error'' (p1\<lparr>newDbNameInput_value := input\<rparr>)"
    using assms(1) cached by (intro createDatabase_rejects_cached) simp_all
  then show ?thesis
    by (simp add: Let_def p1_def [symmetric] showNotification_def)
qed

text \<open>Creating X twice: the calls after the second attempt are those after the first.\<close>

theorem C9_witness:
  "js_trim '' X '' \<noteq> [] \<and> (\<exists>db \<in> set [sourceA, \<lparr>db_name = ''X'', document_count = 0\<rparr>]. db_name db = js_trim '' X '')
   \<and> http_calls (createDatabase False (Ok ()) (Ok [sourceA, \<lparr>db_name = ''X'', document_count = 0\<rparr>])
        (popup_init\<lparr>newDbNameInput_value := '' X ''\<rparr>)) = [POST ''/databases'' ''X'', GET ''/databases'']
   \<and> http_calls (createDatabase False (Ok ()) (Ok [])
        ((createDatabase False (Ok ()) (Ok [sourceA, \<lparr>db_name = ''X'', document_count = 0\<rparr>])
           (popup_init\<lparr>newDbNameInput_value := '' X ''\<rparr>))\<lparr>newDbNameInput_value := '' X ''\<rparr>))
       = [POST ''/databases'' ''X'', GET ''/databases'']"
  using C9_second_create_rejected_locally [where input = "'' X ''"
          and dbs = "[sourceA, \<lparr>db_name = ''X'', document_count = 0\<rparr>]"
          and notify_panel = False and ?response2.0 = "Ok ()" and ?reload2.0 = "Ok []" and p = popup_init]
  by (simp add: Let_def)
     (simp add: createDatabase_def Let_def js_trim_def js_whitespace_def popup_init_def
        showNotification_def loadDatabases_def sourceA_def)

section \<open>Deleting the default database\<close>

text \<open>
  The variable is the mirror of the store once the settings are loaded (the store never
  holds the empty name) and after a database is selected.
\<close>

lemma loadSettings_mirror:
  "stored_selectedDatabase p \<noteq> Some [] \<Longrightarrow>
     selectedDatabase (loadSettings p) = stored_selectedDatabase (loadSettings p)"
  by (simp add: loadSettings_def split: option.split)

lemma selectDatabase_mirror:
  "selectedDatabase (selectDatabase dbName p) = stored_selectedDatabase (selectDatabase dbName p)"
  by (simp add: selectDatabase_def showNotification_def)

lemma deleteDatabase_unconfirmed: "deleteDatabase dbName False response reload p = p"
  by (simp add: deleteDatabase_def)

lemma deleteDatabase_failed:
  "response \<noteq> Ok () \<Longrightarrow>
     stored_selectedDatabase (deleteDatabase dbName confirmed response reload p) = stored_selectedDatabase p
     \<and> selectedDatabase (deleteDatabase dbName confirmed response reload p) = selectedDatabase p"
  by (cases response) (simp_all add: deleteDatabase_def Let_def showNotification_def)

text \<open>
  Claim C10. The popup's variable mirrors the stored default selection. A confirmed
  deletion that succeeds resets the stored default to null when the deleted database is
  the default, leaves it unchanged otherwise, and keeps the variable the mirror of the
  store.
\<close>

theorem C10_delete_resets_default:
  assumes "selectedDatabase p = stored_selectedDatabase p"
  shows "stored_selectedDatabase (deleteDatabase dbName True (Ok ()) reload p)
           = (if stored_selectedDatabase p = Some dbName then None else stored_selectedDatabase p)
       \<and> selectedDatabase (deleteDatabase dbName True (Ok ()) reload p)
           = stored_selectedDatabase (deleteDatabase dbName True (Ok ()) reload p)"
  using assms
  by (cases reload) (simp_all add: deleteDatabase_def Let_def showNotification_def loadDatabases_def)

text \<open>With A the default: deleting A resets the default, deleting B keeps it.\<close>

theorem C10_witness:
  "selectedDatabase (selectDatabase ''A'' popup_init) = stored_selectedDatabase (selectDatabase ''A'' popup_init)
   \<and> stored_selectedDatabase (selectDatabase ''A'' popup_init) = Some ''A''
   \<and> stored_selectedDatabase (deleteDatabase ''A'' True (Ok ()) (Ok []) (selectDatabase ''A'' popup_init)) = None
   \<and> stored_selectedDatabase (deleteDatabase ''B'' True (Ok ()) (Ok []) (selectDatabase ''A'' popup_init)) = Some ''A''"
  using C10_delete_resets_default [where p = "selectDatabase ''A'' popup_init" and dbName = "''A''" and reload = "Ok []"]
    C10_delete_resets_default [where p = "selectDatabase ''A'' popup_init" and dbName = "''B''" and reload = "Ok []"]
  by (simp add: selectDatabase_def showNotification_def popup_init_def)

end
